theory Spec2Isabelle
  imports Complex_Main
begin

section \<open>JavaScript values\<close>

text \<open>
  A JavaScript string is a sequence of UTF-16 code units; it is modelled as the list of
  those code units. \<open>ascii\<close> turns an ASCII literal into that form; Korean literals of
  the source are written as their code units.
\<close>

type_synonym jstring = "nat list"

definition ascii :: "string \<Rightarrow> jstring" where
  "ascii s = map of_char s"

text \<open>
  A JavaScript number is an IEEE double. The finite ones are modelled by the exact
  rational they stand for (rounding to the nearest double is not modelled); the three
  non-finite ones are kept apart, since the code tests for them.
\<close>

datatype jsnum = Finite rat | NaN | PosInfinity | NegInfinity

text \<open>\<^verbatim>\<open>string | number | boolean | null\<close>, and \<^verbatim>\<open>undefined\<close> for a missing property.\<close>

datatype jsvalue = VString jstring | VNumber jsnum | VBoolean bool | VNull | VUndefined

text \<open>
  Two built-ins depend on Unicode tables and on the double representation:
  \<^verbatim>\<open>String.prototype.toLowerCase\<close> and the conversion of a number to a string. They are
  parameters of the model; every theorem below holds for any choice of them.
\<close>

record host =
  toLowerCase :: "jstring \<Rightarrow> jstring"
  numberToString :: "jsnum \<Rightarrow> jstring"

text \<open>\<^verbatim>\<open>String(value)\<close>.\<close>

definition jsString :: "host \<Rightarrow> jsvalue \<Rightarrow> jstring" where
  "jsString h value =
     (case value of
        VString s \<Rightarrow> s
      | VNumber n \<Rightarrow> numberToString h n
      | VBoolean b \<Rightarrow> (if b then ascii ''true'' else ascii ''false'')
      | VNull \<Rightarrow> ascii ''null''
      | VUndefined \<Rightarrow> ascii ''undefined'')"

text \<open>\<^verbatim>\<open>a ?? b\<close>.\<close>

definition nullish :: "jsvalue \<Rightarrow> jsvalue \<Rightarrow> jsvalue" where
  "nullish a b = (if a = VNull \<or> a = VUndefined then b else a)"

text \<open>The characters matched by \<^verbatim>\<open>\s\<close> and removed by \<^verbatim>\<open>trim()\<close>: WhiteSpace and LineTerminator.\<close>

definition isWhiteSpace :: "nat \<Rightarrow> bool" where
  "isWhiteSpace c =
     (c = 9 \<or> c = 10 \<or> c = 11 \<or> c = 12 \<or> c = 13 \<or> c = 32 \<or> c = 160 \<or> c = 5760
      \<or> (8192 \<le> c \<and> c \<le> 8202) \<or> c = 8232 \<or> c = 8233 \<or> c = 8239 \<or> c = 8287
      \<or> c = 12288 \<or> c = 65279)"

definition trim :: "jstring \<Rightarrow> jstring" where
  "trim s = rev (dropWhile isWhiteSpace (rev (dropWhile isWhiteSpace s)))"

text \<open>\<^verbatim>\<open>s.replace(/\s+/g, '')\<close>.\<close>

definition removeWhitespace :: "jstring \<Rightarrow> jstring" where
  "removeWhitespace s = filter (\<lambda>c. \<not> isWhiteSpace c) s"

fun startsWith :: "jstring \<Rightarrow> jstring \<Rightarrow> bool" where
  "startsWith s [] = True"
| "startsWith [] (k # ks) = False"
| "startsWith (c # cs) (k # ks) = (c = k \<and> startsWith cs ks)"

text \<open>\<^verbatim>\<open>s.includes(key)\<close>.\<close>

fun includesStr :: "jstring \<Rightarrow> jstring \<Rightarrow> bool" where
  "includesStr [] key = (key = [])"
| "includesStr (c # cs) key = (startsWith (c # cs) key \<or> includesStr cs key)"

text \<open>The decimal digits of a natural number, as in a template literal.\<close>

fun natToString :: "nat \<Rightarrow> jstring" where
  "natToString n = (if n < 10 then [48 + n] else natToString (n div 10) @ [48 + n mod 10])"

declare natToString.simps [simp del]

section \<open>Numeric coercion\<close>

definition isDigit :: "nat \<Rightarrow> bool" where
  "isDigit c = (48 \<le> c \<and> c \<le> 57)"

text \<open>The class \<^verbatim>\<open>[\d.-]\<close>; \<^verbatim>\<open>.\<close> is 46 and \<^verbatim>\<open>-\<close> is 45.\<close>

definition isNumericChar :: "nat \<Rightarrow> bool" where
  "isNumericChar c = (isDigit c \<or> c = 46 \<or> c = 45)"

text \<open>The value of a run of decimal digits.\<close>

definition digitsValue :: "jstring \<Rightarrow> nat" where
  "digitsValue ds = foldl (\<lambda>acc c. 10 * acc + (c - 48)) 0 ds"

text \<open>
  A literal rounds to a finite double when its magnitude is below
  \<open>2 ^ 1024 - 2 ^ 970\<close>, and to an infinity from there on.
\<close>

definition toDouble :: "rat \<Rightarrow> jsnum" where
  "toDouble q =
     (if 2 ^ 1024 - 2 ^ 970 \<le> q then PosInfinity
      else if q \<le> - (2 ^ 1024 - 2 ^ 970) then NegInfinity
      else Finite q)"

text \<open>
  \<^verbatim>\<open>StrUnsignedDecimalLiteral\<close> over the characters that survive the stripping: digits,
  digits with a fraction (\<^verbatim>\<open>12.5\<close>, \<^verbatim>\<open>12.\<close>) or a bare fraction (\<^verbatim>\<open>.5\<close>). Exponents,
  \<^verbatim>\<open>Infinity\<close> and the prefixed radix forms need letters, which the stripping removes.
\<close>

definition unsignedDecimal :: "jstring \<Rightarrow> rat option" where
  "unsignedDecimal s =
     (let intPart = takeWhile isDigit s in
      case dropWhile isDigit s of
        [] \<Rightarrow> (if intPart = [] then None else Some (of_nat (digitsValue intPart)))
      | c # fracPart \<Rightarrow>
          (if c = 46 \<and> list_all isDigit fracPart \<and> (intPart \<noteq> [] \<or> fracPart \<noteq> [])
           then Some (of_nat (digitsValue intPart)
                        + of_nat (digitsValue fracPart) / 10 ^ length fracPart)
           else None))"

text \<open>
  \<^verbatim>\<open>Number(s)\<close> for a string over digits, \<^verbatim>\<open>.\<close> and \<^verbatim>\<open>-\<close>: the empty string is 0, an
  optional minus sign precedes the unsigned literal, anything else is NaN.
\<close>

definition stringToNumber :: "jstring \<Rightarrow> jsnum" where
  "stringToNumber s =
     (case s of
        [] \<Rightarrow> Finite 0
      | c # cs \<Rightarrow>
          (if c = 45
           then (case unsignedDecimal cs of None \<Rightarrow> NaN | Some q \<Rightarrow> toDouble (- q))
           else (case unsignedDecimal s of None \<Rightarrow> NaN | Some q \<Rightarrow> toDouble q)))"

text \<open>\<^verbatim>\<open>Number.isFinite(n) ? n : null\<close>.\<close>

definition finiteOrNull :: "jsnum \<Rightarrow> rat option" where
  "finiteOrNull n = (case n of Finite q \<Rightarrow> Some q | _ \<Rightarrow> None)"

text \<open>\<^verbatim>\<open>parseNumericValue\<close> of the portfolio page.\<close>

definition parseNumericValue :: "jsvalue \<Rightarrow> rat option" where
  "parseNumericValue value =
     (case value of
        VNumber n \<Rightarrow> finiteOrNull n
      | VString s \<Rightarrow>
          (let normalized = filter isNumericChar s in
           if normalized = [] then None
           else finiteOrNull (stringToNumber normalized))
      | _ \<Rightarrow> None)"

text \<open>\<^verbatim>\<open>toNumber\<close> of the unit detail page: the same body, written a second time in the source.\<close>

definition toNumber :: "jsvalue \<Rightarrow> rat option" where
  "toNumber value =
     (case value of
        VNumber n \<Rightarrow> finiteOrNull n
      | VString s \<Rightarrow>
          (let normalized = filter isNumericChar s in
           if normalized = [] then None
           else finiteOrNull (stringToNumber normalized))
      | _ \<Rightarrow> None)"

section \<open>The portfolio page\<close>

subsection \<open>Data\<close>

text \<open>
  A \<^verbatim>\<open>SheetRow\<close> is an object from column header to cell value, modelled as the list of
  its properties in the order \<^verbatim>\<open>Object.keys\<close> enumerates them. (JavaScript enumerates
  headers that are canonical array indices first; the list is taken in the enumeration
  order, whatever it is.)
\<close>

type_synonym SheetRow = "(jstring \<times> jsvalue) list"

definition objectKeys :: "SheetRow \<Rightarrow> jstring list" where
  "objectKeys row = map fst row"

text \<open>\<^verbatim>\<open>row[column]\<close>: \<^verbatim>\<open>undefined\<close> when the row has no such property.\<close>

definition rowGet :: "SheetRow \<Rightarrow> jstring \<Rightarrow> jsvalue" where
  "rowGet row column = (case map_of row column of Some value \<Rightarrow> value | None \<Rightarrow> VUndefined)"

record PortfolioUnit =
  unit_id :: jstring
  site :: jstring
  ownership :: jstring
  tenantStatus :: jstring
  completionDate :: jstring
  contractRenewalRaw :: jstring
  loanRenewalRaw :: jstring
  unit_note :: jstring
  businessNumber :: jstring
  supplyPrice :: "rat option"
  loanAmount :: "rat option"
  interestRate :: "rat option"
  monthlyInterest :: "rat option"
  monthlyRent :: "rat option"
  buildingTax :: "rat option"
  landTax :: "rat option"
  trafficInducementCharge :: "rat option"

datatype AlertKind = ContractRenewal | LoanRenewal

record RenewalAlert =
  alert_id :: jstring
  alert_site :: jstring
  kind :: AlertKind
  rawDate :: jstring
  daysLeft :: int

record PortfolioSummary =
  totalUnits :: nat
  leasedUnits :: nat
  totalSupplyPrice :: rat
  totalLoanAmount :: rat
  totalEquity :: rat
  avgInterestRate :: "rat option"
  monthlyRentIncome :: rat
  monthlyInterestCost :: rat
  monthlyNetCashflow :: rat
  annualNetCashflow :: rat
  annualReturnOnEquity :: "rat option"
  loanToValue :: "rat option"

record TaxSummary =
  buildingTaxTotal :: rat
  landTaxTotal :: rat
  trafficChargeTotal :: rat
  annualTaxTotal :: rat

subsection \<open>Column resolver\<close>

fun findLikelyColumn :: "host \<Rightarrow> jstring list \<Rightarrow> jstring list \<Rightarrow> jstring" where
  "findLikelyColumn h columns [] = []"
| "findLikelyColumn h columns (key # keys) =
     (case find (\<lambda>column. includesStr (toLowerCase h column) key) columns of
        Some found \<Rightarrow> found
      | None \<Rightarrow> findLikelyColumn h columns keys)"

text \<open>
  The sixteen resolved columns of \<^verbatim>\<open>toPortfolioUnits\<close>, with the keyword lists of the
  source. A Hangul keyword is the list of its code units, decimal in the definition and
  hexadecimal here:
  \<^item> site: U+D604 U+C7A5; U+D638 U+C2E4; \<^verbatim>\<open>site\<close>
  \<^item> completion: U+C900 U+ACF5 U+C77C; \<^verbatim>\<open>completion\<close>
  \<^item> supply: U+ACF5 U+AE09 U+AE08 U+C561; U+B9E4 U+C785; \<^verbatim>\<open>price\<close>
  \<^item> loan: U+B300 U+CD9C U+AE08; \<^verbatim>\<open>loan\<close>
  \<^item> rate: U+C774 U+C728; U+AE08 U+B9AC; \<^verbatim>\<open>rate\<close>
  \<^item> interest: U+B300 U+CD9C U+C774 U+C790; \<^verbatim>\<open>interest\<close>
  \<^item> rent: U+C6D4 U+C138; U+C784 U+B300 U+B8CC; \<^verbatim>\<open>rent\<close>
  \<^item> contract renewal: U+ACC4 U+C57D U+AC31 U+C2E0; U+ACC4 U+C57D U+0020 U+AC31 U+C2E0
  \<^item> loan renewal: U+B300 U+CD9C U+AC31 U+C2E0; U+B300 U+CD9C U+0020 U+AC31 U+C2E0
  \<^item> ownership: U+BA85 U+C758
  \<^item> tenant: U+C2E4 U+C785 U+C8FC U+0020 U+C5EC U+BD80; U+C785 U+C8FC; U+C784 U+B300
  \<^item> note: U+BE44 U+ACE0; \<^verbatim>\<open>note\<close>
  \<^item> business number: U+C0AC U+C5C5 U+C790 U+B4F1 U+B85D U+BC88 U+D638
  \<^item> building tax: U+C7AC U+C0B0 U+C138; U+AC74 U+BB38 U+BD88
  \<^item> land tax: U+D1A0 U+C9C0 U+BD84
  \<^item> traffic charge: U+AD50 U+D1B5 U+C720 U+BC1C U+BD80 U+B2F4 U+AE08
\<close>

record Columns =
  siteColumn :: jstring
  completionColumn :: jstring
  supplyColumn :: jstring
  loanColumn :: jstring
  rateColumn :: jstring
  interestColumn :: jstring
  rentColumn :: jstring
  contractRenewalColumn :: jstring
  loanRenewalColumn :: jstring
  ownershipColumn :: jstring
  tenantColumn :: jstring
  noteColumn :: jstring
  businessNumberColumn :: jstring
  buildingTaxColumn :: jstring
  landTaxColumn :: jstring
  trafficChargeColumn :: jstring

definition resolveColumns :: "host \<Rightarrow> jstring list \<Rightarrow> Columns" where
  "resolveColumns h columns =
     \<lparr> siteColumn = findLikelyColumn h columns
         [[54788, 51109], [54840, 49892], ascii ''site''],
       completionColumn = findLikelyColumn h columns
         [[51456, 44277, 51068], ascii ''completion''],
       supplyColumn = findLikelyColumn h columns
         [[44277, 44553, 44552, 50529], [47588, 51077], ascii ''price''],
       loanColumn = findLikelyColumn h columns
         [[45824, 52636, 44552], ascii ''loan''],
       rateColumn = findLikelyColumn h columns
         [[51060, 50984], [44552, 47532], ascii ''rate''],
       interestColumn = findLikelyColumn h columns
         [[45824, 52636, 51060, 51088], ascii ''interest''],
       rentColumn = findLikelyColumn h columns
         [[50900, 49464], [51076, 45824, 47308], ascii ''rent''],
       contractRenewalColumn = findLikelyColumn h columns
         [[44228, 50557, 44081, 49888], [44228, 50557, 32, 44081, 49888]],
       loanRenewalColumn = findLikelyColumn h columns
         [[45824, 52636, 44081, 49888], [45824, 52636, 32, 44081, 49888]],
       ownershipColumn = findLikelyColumn h columns
         [[47749, 51032]],
       tenantColumn = findLikelyColumn h columns
         [[49892, 51077, 51452, 32, 50668, 48512], [51077, 51452], [51076, 45824]],
       noteColumn = findLikelyColumn h columns
         [[48708, 44256], ascii ''note''],
       businessNumberColumn = findLikelyColumn h columns
         [[49324, 50629, 51088, 46321, 47197, 48264, 54840]],
       buildingTaxColumn = findLikelyColumn h columns
         [[51116, 49328, 49464], [44148, 47928, 48520]],
       landTaxColumn = findLikelyColumn h columns
         [[53664, 51648, 48516]],
       trafficChargeColumn = findLikelyColumn h columns
         [[44368, 53685, 50976, 48156, 48512, 45812, 44552]] \<rparr>"

subsection \<open>Row normalizer\<close>

text \<open>\<^verbatim>\<open>Array.prototype.findIndex\<close>: the first index whose element satisfies the test, else -1.\<close>

fun findIndex :: "('a \<Rightarrow> bool) \<Rightarrow> 'a list \<Rightarrow> int" where
  "findIndex P [] = - 1"
| "findIndex P (x # xs) =
     (if P x then 0 else (let i = findIndex P xs in if i < 0 then - 1 else i + 1))"

text \<open>\<^verbatim>\<open>String(row[column] ?? fallback)\<close>.\<close>

definition textOr :: "host \<Rightarrow> SheetRow \<Rightarrow> jstring \<Rightarrow> jstring \<Rightarrow> jstring" where
  "textOr h row column fallback = jsString h (nullish (rowGet row column) (VString fallback))"

text \<open>The total marker of the source, the two Hangul syllables U+D569 U+ACC4.\<close>

definition totalMarker :: jstring where
  "totalMarker = [54633, 44228]"

text \<open>The test of \<^verbatim>\<open>rows.findIndex\<close>: the site text, whitespace removed, contains the marker.\<close>

definition isSumRow :: "host \<Rightarrow> jstring \<Rightarrow> SheetRow \<Rightarrow> bool" where
  "isSumRow h column row = includesStr (removeWhitespace (textOr h row column [])) totalMarker"

text \<open>The test of the \<^verbatim>\<open>filter\<close>: the trimmed site text is not empty.\<close>

definition hasSite :: "host \<Rightarrow> jstring \<Rightarrow> SheetRow \<Rightarrow> bool" where
  "hasSite h column row = (length (trim (textOr h row column [])) > 0)"

text \<open>
  The callback of the final \<^verbatim>\<open>map\<close>. The fallback site label is U+D638 U+C2E4, a space and the
  decimal digits of index + 1.
\<close>

definition toUnit :: "host \<Rightarrow> Columns \<Rightarrow> nat \<Rightarrow> SheetRow \<Rightarrow> PortfolioUnit" where
  "toUnit h cs index row =
     \<lparr> unit_id = ascii ''unit-'' @ natToString index,
       site = textOr h row (siteColumn cs) ([54840, 49892, 32] @ natToString (index + 1)),
       ownership = textOr h row (ownershipColumn cs) (ascii ''-''),
       tenantStatus = textOr h row (tenantColumn cs) (ascii ''-''),
       completionDate = textOr h row (completionColumn cs) (ascii ''-''),
       contractRenewalRaw = textOr h row (contractRenewalColumn cs) [],
       loanRenewalRaw = textOr h row (loanRenewalColumn cs) [],
       unit_note = textOr h row (noteColumn cs) (ascii ''-''),
       businessNumber = textOr h row (businessNumberColumn cs) (ascii ''-''),
       supplyPrice = parseNumericValue (rowGet row (supplyColumn cs)),
       loanAmount = parseNumericValue (rowGet row (loanColumn cs)),
       interestRate = parseNumericValue (rowGet row (rateColumn cs)),
       monthlyInterest = parseNumericValue (rowGet row (interestColumn cs)),
       monthlyRent = parseNumericValue (rowGet row (rentColumn cs)),
       buildingTax = parseNumericValue (rowGet row (buildingTaxColumn cs)),
       landTax = parseNumericValue (rowGet row (landTaxColumn cs)),
       trafficInducementCharge = parseNumericValue (rowGet row (trafficChargeColumn cs)) \<rparr>"

definition toPortfolioUnits :: "host \<Rightarrow> SheetRow list \<Rightarrow> PortfolioUnit list" where
  "toPortfolioUnits h rows =
     (case rows of
        [] \<Rightarrow> []
      | first # _ \<Rightarrow>
          (let cs = resolveColumns h (objectKeys first);
               sumRowIndex = findIndex (isSumRow h (siteColumn cs)) rows;
               sourceRows = filter (hasSite h (siteColumn cs))
                              (if sumRowIndex \<ge> 0 then take (nat sumRowIndex) rows else rows)
           in map (\<lambda>(index, row). toUnit h cs index row) (enumerate 0 sourceRows)))"

subsection \<open>Metrics aggregator\<close>

text \<open>\<^verbatim>\<open>x ?? 0\<close> on a nullable number.\<close>

definition orZero :: "rat option \<Rightarrow> rat" where
  "orZero x = (case x of Some q \<Rightarrow> q | None \<Rightarrow> 0)"

definition summarizeTaxes :: "PortfolioUnit list \<Rightarrow> TaxSummary" where
  "summarizeTaxes units =
     (let buildingTaxTotal' = foldl (\<lambda>acc unit. acc + orZero (buildingTax unit)) 0 units;
          landTaxTotal' = foldl (\<lambda>acc unit. acc + orZero (landTax unit)) 0 units;
          trafficChargeTotal' =
            foldl (\<lambda>acc unit. acc + orZero (trafficInducementCharge unit)) 0 units
      in \<lparr> buildingTaxTotal = buildingTaxTotal',
           landTaxTotal = landTaxTotal',
           trafficChargeTotal = trafficChargeTotal',
           annualTaxTotal = buildingTaxTotal' + landTaxTotal' + trafficChargeTotal' \<rparr>)"

text \<open>The filter of \<^verbatim>\<open>weightedRateBase\<close>.\<close>

definition inWeightedRateBase :: "PortfolioUnit \<Rightarrow> bool" where
  "inWeightedRateBase unit =
     (interestRate unit \<noteq> None \<and> loanAmount unit \<noteq> None \<and> orZero (loanAmount unit) > 0)"

text \<open>
  The three tenancy markers of \<^verbatim>\<open>leasedUnits\<close>: U+C784 U+B300 (leased), U+C785 U+C8FC (occupied) and
  U+C6B4 U+C601 (operating).
\<close>

definition isLeased :: "host \<Rightarrow> PortfolioUnit \<Rightarrow> bool" where
  "isLeased h unit =
     (let value = toLowerCase h (tenantStatus unit)
      in includesStr value [51076, 45824] \<or> includesStr value [51077, 51452]
         \<or> includesStr value [50868, 50689])"

definition summarizePortfolio :: "host \<Rightarrow> PortfolioUnit list \<Rightarrow> PortfolioSummary" where
  "summarizePortfolio h units =
     (if length units = 0 then
        \<lparr> totalUnits = 0, leasedUnits = 0, totalSupplyPrice = 0, totalLoanAmount = 0,
          totalEquity = 0, avgInterestRate = None, monthlyRentIncome = 0,
          monthlyInterestCost = 0, monthlyNetCashflow = 0, annualNetCashflow = 0,
          annualReturnOnEquity = None, loanToValue = None \<rparr>
      else
        (let totalSupplyPrice' = foldl (\<lambda>acc unit. acc + orZero (supplyPrice unit)) 0 units;
             totalLoanAmount' = foldl (\<lambda>acc unit. acc + orZero (loanAmount unit)) 0 units;
             totalEquity' = totalSupplyPrice' - totalLoanAmount';
             monthlyRentIncome' = foldl (\<lambda>acc unit. acc + orZero (monthlyRent unit)) 0 units;
             monthlyInterestCost' =
               foldl (\<lambda>acc unit. acc + orZero (monthlyInterest unit)) 0 units;
             monthlyNetCashflow' = monthlyRentIncome' - monthlyInterestCost';
             annualNetCashflow' = monthlyNetCashflow' * 12;
             weightedRateBase = filter inWeightedRateBase units;
             weightedRateDenom =
               foldl (\<lambda>acc unit. acc + orZero (loanAmount unit)) 0 weightedRateBase;
             weightedRateNumerator =
               foldl (\<lambda>acc unit. acc + orZero (loanAmount unit) * orZero (interestRate unit))
                 0 weightedRateBase;
             avgInterestRate' =
               (if weightedRateDenom > 0 then Some (weightedRateNumerator / weightedRateDenom)
                else None);
             leasedUnits' = length (filter (isLeased h) units);
             annualReturnOnEquity' =
               (if totalEquity' > 0 then Some (annualNetCashflow' / totalEquity') else None);
             loanToValue' =
               (if totalSupplyPrice' > 0 then Some (totalLoanAmount' / totalSupplyPrice')
                else None)
         in \<lparr> totalUnits = length units, leasedUnits = leasedUnits',
              totalSupplyPrice = totalSupplyPrice', totalLoanAmount = totalLoanAmount',
              totalEquity = totalEquity', avgInterestRate = avgInterestRate',
              monthlyRentIncome = monthlyRentIncome',
              monthlyInterestCost = monthlyInterestCost',
              monthlyNetCashflow = monthlyNetCashflow',
              annualNetCashflow = annualNetCashflow',
              annualReturnOnEquity = annualReturnOnEquity',
              loanToValue = loanToValue' \<rparr>))"

subsection \<open>Per-unit figures of the table\<close>

text \<open>The three constants computed for each row of the unit table in \<^verbatim>\<open>PortfolioPage\<close>.\<close>

definition unitEquity :: "PortfolioUnit \<Rightarrow> rat" where
  "unitEquity unit =
     (if orZero (supplyPrice unit) > 0
      then orZero (supplyPrice unit) - orZero (loanAmount unit) else 0)"

definition unitMonthlyNet :: "PortfolioUnit \<Rightarrow> rat" where
  "unitMonthlyNet unit = orZero (monthlyRent unit) - orZero (monthlyInterest unit)"

definition unitRoe :: "PortfolioUnit \<Rightarrow> rat option" where
  "unitRoe unit =
     (if unitEquity unit > 0 then Some ((unitMonthlyNet unit * 12) / unitEquity unit) else None)"

section \<open>Renewal scheduler\<close>

subsection \<open>The date pattern\<close>

text \<open>
  The pattern is \<^verbatim>\<open>/(\d{2,4})\D+(\d{1,2})\D+(\d{1,2})/\<close>. A greedy repetition of a character
  class, between \<open>lo\<close> and \<open>hi\<close> times, can match the prefixes of the string that lie in
  the class; a backtracking matcher tries the longest first. \<open>repeatClass\<close> lists those
  choices in that order, each with the rest of the string.
\<close>

definition isNonDigit :: "nat \<Rightarrow> bool" where
  "isNonDigit c = (\<not> isDigit c)"

definition repeatClass ::
    "(nat \<Rightarrow> bool) \<Rightarrow> nat \<Rightarrow> nat \<Rightarrow> jstring \<Rightarrow> (jstring \<times> jstring) list" where
  "repeatClass p lo hi s =
     map (\<lambda>n. (take n s, drop n s)) (rev [lo ..< Suc (min hi (length (takeWhile p s)))])"

text \<open>
  All matches of the pattern that start at the head of the string, in the order the
  matcher finds them; the three components are the captured groups.
\<close>

definition dateMatchesAt :: "jstring \<Rightarrow> (jstring \<times> jstring \<times> jstring) list" where
  "dateMatchesAt s =
     List.bind (repeatClass isDigit 2 4 s) (\<lambda>(g1, r1).
     List.bind (repeatClass isNonDigit 1 (length r1) r1) (\<lambda>(_, r2).
     List.bind (repeatClass isDigit 1 2 r2) (\<lambda>(g2, r3).
     List.bind (repeatClass isNonDigit 1 (length r3) r3) (\<lambda>(_, r4).
     List.bind (repeatClass isDigit 1 2 r4) (\<lambda>(g3, _). [(g1, g2, g3)])))))"

text \<open>\<^verbatim>\<open>raw.match(pattern)\<close>: the first match at the leftmost position that has one.\<close>

fun dateMatch :: "jstring \<Rightarrow> (jstring \<times> jstring \<times> jstring) option" where
  "dateMatch [] = (case dateMatchesAt [] of m # _ \<Rightarrow> Some m | [] \<Rightarrow> None)"
| "dateMatch (c # cs) =
     (case dateMatchesAt (c # cs) of m # _ \<Rightarrow> Some m | [] \<Rightarrow> dateMatch cs)"

subsection \<open>The Date object\<close>

text \<open>
  A valid Date is modelled by its time value in milliseconds, read in local time; the
  local time zone is taken to have a constant offset (as Korea's has), so that local
  midnights are multiples of \<open>msPerDay\<close> and the offset cancels in every difference.
  The day arithmetic is that of the language standard.
\<close>

definition msPerDay :: int where
  "msPerDay = 86400000"

definition Day :: "int \<Rightarrow> int" where
  "Day t = t div msPerDay"

definition DaysInYear :: "int \<Rightarrow> int" where
  "DaysInYear y =
     (if y mod 4 \<noteq> 0 then 365 else if y mod 100 \<noteq> 0 then 366
      else if y mod 400 \<noteq> 0 then 365 else 366)"

definition InLeapYear :: "int \<Rightarrow> bool" where
  "InLeapYear y = (DaysInYear y = 366)"

definition DayFromYear :: "int \<Rightarrow> int" where
  "DayFromYear y =
     365 * (y - 1970) + (y - 1969) div 4 - (y - 1901) div 100 + (y - 1601) div 400"

text \<open>
  \<^verbatim>\<open>YearFromTime(t)\<close> is the largest year whose first day is not after \<open>t\<close>. It is found
  by two loops from an estimate: down to a year that starts on or before day \<open>d\<close>, then
  up to the last such year.
\<close>

function yearDescend :: "int \<Rightarrow> int \<Rightarrow> int" where
  "yearDescend d y = (if d < DayFromYear y then yearDescend d (y - 1) else y)"
  by pat_completeness auto
termination
proof (relation "measure (\<lambda>(d, y). nat (DayFromYear y - d))")
  show "wf (measure (\<lambda>(d, y). nat (DayFromYear y - d)))"
    by simp
next
  fix d y :: int
  assume less: "d < DayFromYear y"
  have bound: "p \<le> p' \<Longrightarrow> q' \<le> q + 1 \<Longrightarrow> r \<le> r' \<Longrightarrow>
      365 * (z - 1 - 1970) + p - q + r < 365 * (z - 1970) + p' - q' + r'"
    for z p p' q q' r r' :: int
    by (simp add: algebra_simps)
  have a: "(y - 1 - 1969) div 4 \<le> (y - 1969) div 4"
    by (rule zdiv_mono1) simp_all
  have "(y - 1901) div 100 \<le> (y - 1 - 1901 + 100) div 100"
    by (rule zdiv_mono1) simp_all
  then have b: "(y - 1901) div 100 \<le> (y - 1 - 1901) div 100 + 1"
    by simp
  have c: "(y - 1 - 1601) div 400 \<le> (y - 1601) div 400"
    by (rule zdiv_mono1) simp_all
  have "DayFromYear (y - 1) < DayFromYear y"
    unfolding DayFromYear_def by (rule bound [OF a b c])
  with less show "((d, y - 1), (d, y)) \<in> measure (\<lambda>(d, y). nat (DayFromYear y - d))"
    by simp
qed

function yearClimb :: "int \<Rightarrow> int \<Rightarrow> int" where
  "yearClimb d y = (if DayFromYear (y + 1) \<le> d then yearClimb d (y + 1) else y)"
  by pat_completeness auto
termination
proof (relation "measure (\<lambda>(d, y). nat (d + 1 - DayFromYear (y + 1)))")
  show "wf (measure (\<lambda>(d, y). nat (d + 1 - DayFromYear (y + 1))))"
    by simp
next
  fix d y :: int
  assume le: "DayFromYear (y + 1) \<le> d"
  have bound: "p \<le> p' \<Longrightarrow> q' \<le> q + 1 \<Longrightarrow> r \<le> r' \<Longrightarrow>
      365 * (z - 1970) + p - q + r < 365 * (z + 1 - 1970) + p' - q' + r'"
    for z p p' q q' r r' :: int
    by (simp add: algebra_simps)
  have a: "(y + 1 - 1969) div 4 \<le> (y + 1 + 1 - 1969) div 4"
    by (rule zdiv_mono1) simp_all
  have "(y + 1 + 1 - 1901) div 100 \<le> (y + 1 - 1901 + 100) div 100"
    by (rule zdiv_mono1) simp_all
  then have b: "(y + 1 + 1 - 1901) div 100 \<le> (y + 1 - 1901) div 100 + 1"
    by simp
  have c: "(y + 1 - 1601) div 400 \<le> (y + 1 + 1 - 1601) div 400"
    by (rule zdiv_mono1) simp_all
  have "DayFromYear (y + 1) < DayFromYear (y + 1 + 1)"
    unfolding DayFromYear_def by (rule bound [OF a b c])
  with le show "((d, y + 1), (d, y)) \<in> measure (\<lambda>(d, y). nat (d + 1 - DayFromYear (y + 1)))"
    by simp
qed

declare yearDescend.simps [simp del]

declare yearClimb.simps [simp del]

definition YearFromTime :: "int \<Rightarrow> int" where
  "YearFromTime t = (let d = Day t in yearClimb d (yearDescend d (1970 + d div 365)))"

definition DayWithinYear :: "int \<Rightarrow> int" where
  "DayWithinYear t = Day t - DayFromYear (YearFromTime t)"

text \<open>The day within the year on which month \<open>m\<close> (0 to 11) starts.\<close>

definition monthStart :: "int \<Rightarrow> bool \<Rightarrow> int" where
  "monthStart m leap =
     (let l = (if leap then 1 else 0) in
      if m = 0 then 0 else if m = 1 then 31 else if m = 2 then 59 + l
      else if m = 3 then 90 + l else if m = 4 then 120 + l else if m = 5 then 151 + l
      else if m = 6 then 181 + l else if m = 7 then 212 + l else if m = 8 then 243 + l
      else if m = 9 then 273 + l else if m = 10 then 304 + l else 334 + l)"

definition MonthFromTime :: "int \<Rightarrow> int" where
  "MonthFromTime t =
     (let d = DayWithinYear t; leap = InLeapYear (YearFromTime t) in
      if d < monthStart 1 leap then 0 else if d < monthStart 2 leap then 1
      else if d < monthStart 3 leap then 2 else if d < monthStart 4 leap then 3
      else if d < monthStart 5 leap then 4 else if d < monthStart 6 leap then 5
      else if d < monthStart 7 leap then 6 else if d < monthStart 8 leap then 7
      else if d < monthStart 9 leap then 8 else if d < monthStart 10 leap then 9
      else if d < monthStart 11 leap then 10 else 11)"

definition DateFromTime :: "int \<Rightarrow> int" where
  "DateFromTime t =
     DayWithinYear t - monthStart (MonthFromTime t) (InLeapYear (YearFromTime t)) + 1"

text \<open>
  \<^verbatim>\<open>MakeDay(year, month, date)\<close>: months outside 0 to 11 carry into the year, and the day
  of the month is added as a plain offset, so that out-of-range components roll over.
\<close>

definition MakeDay :: "int \<Rightarrow> int \<Rightarrow> int \<Rightarrow> int" where
  "MakeDay year month date =
     (let ym = year + month div 12; mn = month mod 12
      in DayFromYear ym + monthStart mn (InLeapYear ym) + date - 1)"

text \<open>
  \<^verbatim>\<open>TimeClip\<close>: a time value beyond 8.64e15 ms is NaN, an invalid Date. The bound is
  applied to the local value; the offset matters only within a day of the bound, which is
  beyond year 275000.
\<close>

definition TimeClip :: "int \<Rightarrow> int option" where
  "TimeClip t = (if \<bar>t\<bar> > 8640000000000000 then None else Some t)"

text \<open>\<^verbatim>\<open>new Date(year, monthIndex, day)\<close>: years 0 to 99 mean 1900 to 1999.\<close>

definition newDate :: "int \<Rightarrow> int \<Rightarrow> int \<Rightarrow> int option" where
  "newDate year monthIndex day =
     (let yr = (if 0 \<le> year \<and> year \<le> 99 then 1900 + year else year)
      in TimeClip (MakeDay yr monthIndex day * msPerDay))"

definition getFullYear :: "int \<Rightarrow> int" where
  "getFullYear t = YearFromTime t"

definition getMonth :: "int \<Rightarrow> int" where
  "getMonth t = MonthFromTime t"

definition getDate :: "int \<Rightarrow> int" where
  "getDate t = DateFromTime t"

subsection \<open>Parsing and days left\<close>

text \<open>
  \<^verbatim>\<open>parseKoreanDate\<close>. The captured groups are runs of one to four digits, so
  \<^verbatim>\<open>Number\<close> of each is a finite natural number and the \<^verbatim>\<open>Number.isFinite\<close> test of the
  source always passes. The result is \<open>None\<close> for \<^verbatim>\<open>null\<close>.
\<close>

definition parseKoreanDate :: "jstring \<Rightarrow> int option" where
  "parseKoreanDate raw =
     (case dateMatch raw of
        None \<Rightarrow> None
      | Some (g1, g2, g3) \<Rightarrow>
          (let year = int (digitsValue g1);
               month = int (digitsValue g2);
               day = int (digitsValue g3);
               year' = (if year < 100 then year + 2000 else year)
           in newDate year' (month - 1) day))"

text \<open>
  The result of \<^verbatim>\<open>calculateDaysLeft\<close>: \<^verbatim>\<open>null\<close>, a whole number of days, or NaN (when one
  of the two midnights is an invalid Date).
\<close>

datatype DaysLeft = NoDate | DaysNaN | Days int

text \<open>\<open>now\<close> is the time value of \<^verbatim>\<open>new Date()\<close>.\<close>

definition calculateDaysLeft :: "int \<Rightarrow> jstring \<Rightarrow> DaysLeft" where
  "calculateDaysLeft now raw =
     (case parseKoreanDate raw of
        None \<Rightarrow> NoDate
      | Some parsed \<Rightarrow>
          (case newDate (getFullYear now) (getMonth now) (getDate now) of
             None \<Rightarrow> DaysNaN
           | Some startOfToday \<Rightarrow>
               (case newDate (getFullYear parsed) (getMonth parsed) (getDate parsed) of
                  None \<Rightarrow> DaysNaN
                | Some target \<Rightarrow> Days ((target - startOfToday) div msPerDay))))"

subsection \<open>Alerts\<close>

text \<open>The two alerts one unit can add, in the order the loop body pushes them.\<close>

definition contractAlert :: "int \<Rightarrow> PortfolioUnit \<Rightarrow> RenewalAlert list" where
  "contractAlert now unit =
     (case calculateDaysLeft now (contractRenewalRaw unit) of
        Days contractDays \<Rightarrow>
          (if contractDays \<ge> 0 \<and> contractDays \<le> 120
           then [\<lparr> alert_id = unit_id unit @ ascii ''-contract'', alert_site = site unit,
                   kind = ContractRenewal, rawDate = contractRenewalRaw unit,
                   daysLeft = contractDays \<rparr>]
           else [])
      | _ \<Rightarrow> [])"

definition loanAlert :: "int \<Rightarrow> PortfolioUnit \<Rightarrow> RenewalAlert list" where
  "loanAlert now unit =
     (case calculateDaysLeft now (loanRenewalRaw unit) of
        Days loanDays \<Rightarrow>
          (if loanDays \<ge> 0 \<and> loanDays \<le> 120
           then [\<lparr> alert_id = unit_id unit @ ascii ''-loan'', alert_site = site unit,
                   kind = LoanRenewal, rawDate = loanRenewalRaw unit,
                   daysLeft = loanDays \<rparr>]
           else [])
      | _ \<Rightarrow> [])"

text \<open>
  \<^verbatim>\<open>buildRenewalAlerts\<close>. The loop appends to \<^verbatim>\<open>alerts\<close>; \<^verbatim>\<open>Array.prototype.sort\<close> is
  stable and the comparator orders by \<^verbatim>\<open>daysLeft\<close>, which is the stable insertion sort
  \<open>sort_key\<close>.
\<close>

definition buildRenewalAlerts :: "int \<Rightarrow> PortfolioUnit list \<Rightarrow> RenewalAlert list" where
  "buildRenewalAlerts now units =
     sort_key daysLeft
       (foldl (\<lambda>alerts unit. alerts @ contractAlert now unit @ loanAlert now unit) [] units)"

section \<open>The unit detail page\<close>

subsection \<open>Data\<close>

text \<open>
  \<^verbatim>\<open>GvizCell = { v, f? }\<close>; a row is its array \<^verbatim>\<open>c\<close> of cells, \<open>None\<close> for a \<^verbatim>\<open>null\<close> cell;
  a column is its optional label.
\<close>

record GvizCell =
  cell_v :: jsvalue
  cell_f :: "jstring option"

type_synonym GvizRow = "GvizCell option list"

record GvizTable =
  table_cols :: "jstring option list"
  table_rows :: "GvizRow list"

record UnitScenario =
  sc_ltv :: jstring
  sc_loanAmount :: "rat option"
  sc_equity :: "rat option"
  sc_deposit :: "rat option"
  sc_fixedCost :: "rat option"
  sc_investedTotal :: "rat option"
  sc_monthlyRent :: "rat option"
  sc_monthlyInterest :: "rat option"
  sc_monthlyNet :: "rat option"
  sc_monthlyRoi :: "rat option"
  sc_annualProfit :: "rat option"
  sc_annualRoi :: "rat option"

record Building =
  supplyAreaPyeong :: jstring
  exclusiveAreaPyeong :: jstring
  exclusiveRatio :: "rat option"
  landPrice :: "rat option"
  buildingPrice :: "rat option"
  pricePerPyeong :: "rat option"
  supplyAmount :: "rat option"
  vat :: "rat option"
  totalAcquisition :: "rat option"

record Facility =
  hvac :: jstring
  interior :: jstring

record Lease =
  lease_deposit :: "rat option"
  lease_monthlyRent :: "rat option"
  lease_monthlyRentPerPyeong :: "rat option"

record OtherCosts =
  registration :: "rat option"
  brokerage :: "rat option"
  propertyBuildingTax :: "rat option"
  propertyLandTax :: "rat option"

record UnitDetail =
  warningText :: jstring
  building :: Building
  facility :: Facility
  lease :: Lease
  otherCosts :: OtherCosts
  loanInterestLabel :: jstring
  scenarios :: "UnitScenario list"

subsection \<open>Cell access\<close>

text \<open>\<^verbatim>\<open>xs[i]\<close>: \<^verbatim>\<open>undefined\<close>, here \<open>None\<close>, beyond the end.\<close>

definition nthOpt :: "'a list \<Rightarrow> nat \<Rightarrow> 'a option" where
  "nthOpt xs i = (if i < length xs then Some (xs ! i) else None)"

text \<open>\<^verbatim>\<open>c[i]\<close> of a row, with \<^verbatim>\<open>null\<close> and \<^verbatim>\<open>undefined\<close> both \<open>None\<close>.\<close>

definition cellOf :: "GvizRow \<Rightarrow> nat \<Rightarrow> GvizCell option" where
  "cellOf cells i = (case nthOpt cells i of Some (Some cell) \<Rightarrow> Some cell | _ \<Rightarrow> None)"

text \<open>\<^verbatim>\<open>rows[r]?.c?.[c] ?? null\<close>.\<close>

definition getCell :: "GvizTable \<Rightarrow> nat \<Rightarrow> nat \<Rightarrow> GvizCell option" where
  "getCell table r c =
     (case nthOpt (table_rows table) r of Some cells \<Rightarrow> cellOf cells c | None \<Rightarrow> None)"

text \<open>\<^verbatim>\<open>cell?.v\<close>.\<close>

definition valueOf :: "GvizCell option \<Rightarrow> jsvalue" where
  "valueOf cell = (case cell of Some cl \<Rightarrow> cell_v cl | None \<Rightarrow> VUndefined)"

definition cellToString :: "host \<Rightarrow> GvizCell option \<Rightarrow> jstring" where
  "cellToString h cell =
     (case cell of
        None \<Rightarrow> []
      | Some cl \<Rightarrow>
          (let fromValue =
                 (if cell_v cl = VNull \<or> cell_v cl = VUndefined then []
                  else trim (jsString h (cell_v cl)))
           in case cell_f cl of
                Some fs \<Rightarrow> (if fs \<noteq> [] \<and> trim fs \<noteq> [] then trim fs else fromValue)
              | None \<Rightarrow> fromValue))"

definition normalize :: "host \<Rightarrow> jstring \<Rightarrow> jstring" where
  "normalize h value = toLowerCase h (removeWhitespace value)"

text \<open>\<^verbatim>\<open>findCellByKeyword\<close>: the two nested loops, rows outermost, first match wins.\<close>

fun findInCells :: "host \<Rightarrow> jstring \<Rightarrow> GvizRow \<Rightarrow> nat \<Rightarrow> nat option" where
  "findInCells h target [] c = None"
| "findInCells h target (cell # cells) c =
     (if includesStr (normalize h (cellToString h cell)) target then Some c
      else findInCells h target cells (c + 1))"

fun findInRows :: "host \<Rightarrow> jstring \<Rightarrow> GvizRow list \<Rightarrow> nat \<Rightarrow> (nat \<times> nat) option" where
  "findInRows h target [] r = None"
| "findInRows h target (cells # rest) r =
     (case findInCells h target cells 0 of
        Some c \<Rightarrow> Some (r, c)
      | None \<Rightarrow> findInRows h target rest (r + 1))"

definition findCellByKeyword :: "host \<Rightarrow> GvizTable \<Rightarrow> jstring \<Rightarrow> (nat \<times> nat) option" where
  "findCellByKeyword h table keyword = findInRows h (normalize h keyword) (table_rows table) 0"

subsection \<open>Numeric reads\<close>

definition getNumericAt :: "host \<Rightarrow> GvizTable \<Rightarrow> nat \<Rightarrow> nat \<Rightarrow> rat option" where
  "getNumericAt h table row col =
     (let cell = getCell table row col;
          fromValue = toNumber (valueOf cell)
      in case fromValue of
           Some x \<Rightarrow> Some x
         | None \<Rightarrow> toNumber (VString (cellToString h cell)))"

text \<open>The loop of \<^verbatim>\<open>getNumericBelow\<close>, from \<open>offset\<close> on, with \<open>n\<close> iterations left.\<close>

fun belowLoop :: "host \<Rightarrow> GvizTable \<Rightarrow> nat \<times> nat \<Rightarrow> nat \<Rightarrow> nat \<Rightarrow> rat option" where
  "belowLoop h table anchor offset 0 = None"
| "belowLoop h table anchor offset (Suc n) =
     (case getNumericAt h table (fst anchor + offset) (snd anchor) of
        Some value \<Rightarrow> Some value
      | None \<Rightarrow> belowLoop h table anchor (offset + 1) n)"

definition getNumericBelow :: "host \<Rightarrow> GvizTable \<Rightarrow> nat \<times> nat \<Rightarrow> nat \<Rightarrow> rat option" where
  "getNumericBelow h table anchor maxDepth = belowLoop h table anchor 1 maxDepth"

text \<open>The value read for one cell in the loop of \<^verbatim>\<open>getRegistrationHeuristic\<close>.\<close>

definition heuristicValue :: "host \<Rightarrow> GvizCell option \<Rightarrow> rat option" where
  "heuristicValue h cell =
     (case toNumber (valueOf cell) of
        Some x \<Rightarrow> Some x
      | None \<Rightarrow> toNumber (VString (cellToString h cell)))"

definition getRegistrationHeuristic ::
    "host \<Rightarrow> GvizTable \<Rightarrow> (nat \<times> nat) option \<Rightarrow> rat option" where
  "getRegistrationHeuristic h table anchor =
     (case anchor of
        None \<Rightarrow> None
      | Some (row, col) \<Rightarrow>
          (let cells = (case nthOpt (table_rows table) (row + 1) of
                          Some cs \<Rightarrow> cs | None \<Rightarrow> []);
               numbers = List.map_filter (heuristicValue h) (drop col cells)
           in if length numbers = 0 then None
              else if length numbers \<ge> 3 then Some (numbers ! 2)
              else Some (numbers ! (length numbers - 1))))"

subsection \<open>The detail parser\<close>

text \<open>The test and the mapping of the scenario rows.\<close>

definition isScenarioRow :: "host \<Rightarrow> GvizRow \<Rightarrow> bool" where
  "isScenarioRow h cells = includesStr (cellToString h (cellOf cells 1)) (ascii ''%'')"

definition toScenario :: "host \<Rightarrow> GvizRow \<Rightarrow> UnitScenario" where
  "toScenario h c =
     \<lparr> sc_ltv = (if cellToString h (cellOf c 1) = [] then ascii ''-''
                 else cellToString h (cellOf c 1)),
       sc_loanAmount = toNumber (VString (cellToString h (cellOf c 2))),
       sc_equity = toNumber (valueOf (cellOf c 3)),
       sc_deposit = toNumber (valueOf (cellOf c 4)),
       sc_fixedCost = toNumber (valueOf (cellOf c 5)),
       sc_investedTotal = toNumber (valueOf (cellOf c 6)),
       sc_monthlyRent = toNumber (valueOf (cellOf c 7)),
       sc_monthlyInterest = toNumber (valueOf (cellOf c 8)),
       sc_monthlyNet = toNumber (valueOf (cellOf c 9)),
       sc_monthlyRoi = toNumber (valueOf (cellOf c 10)),
       sc_annualProfit = toNumber (valueOf (cellOf c 11)),
       sc_annualRoi = toNumber (valueOf (cellOf c 12)) \<rparr>"

text \<open>\<^verbatim>\<open>a ?? b\<close> on nullable numbers.\<close>

definition orElse :: "rat option \<Rightarrow> rat option \<Rightarrow> rat option" where
  "orElse a b = (case a of Some x \<Rightarrow> Some x | None \<Rightarrow> b)"

text \<open>
  The five anchor keywords are, in the order of the source: deposit (U+BCF4 U+C99D U+AE08), monthly rent
  (U+C6D4 U+C138), rent per pyeong (U+D3C9 U+B2F9 U+C6D4 U+C138), acquisition tax
  (U+CDE8 U+B4F1 U+B85D U+C138) and registration cost (U+B4F1 U+AE30 U+BE44 U+C6A9).
\<close>

definition parseDetail :: "host \<Rightarrow> GvizTable \<Rightarrow> UnitDetail" where
  "parseDetail h table =
     (let depositLabel = findCellByKeyword h table [48372, 51613, 44552];
          rentLabel = findCellByKeyword h table [50900, 49464];
          rentPerPyeongLabel = findCellByKeyword h table [54217, 45817, 50900, 49464];
          acquisitionTaxLabel = findCellByKeyword h table [52712, 46321, 47197, 49464];
          registrationLabel = findCellByKeyword h table [46321, 44592, 48708, 50857];
          leaseDeposit =
            (case depositLabel of
               Some d \<Rightarrow> getNumericBelow h table d 4
             | None \<Rightarrow> toNumber (VString (cellToString h (getCell table 8 1))));
          monthlyRent' =
            (case rentLabel of
               Some r \<Rightarrow> getNumericBelow h table r 4
             | None \<Rightarrow>
                 (case depositLabel of
                    Some d \<Rightarrow> getNumericAt h table (fst d + 1) (snd d + 1)
                  | None \<Rightarrow> toNumber (VString (cellToString h (getCell table 8 2)))));
          monthlyRentPerPyeong =
            (case rentPerPyeongLabel of
               Some p \<Rightarrow> getNumericBelow h table p 4
             | None \<Rightarrow>
                 (case rentLabel of
                    Some r \<Rightarrow> getNumericAt h table (fst r + 1) (snd r + 1)
                  | None \<Rightarrow>
                      (case depositLabel of
                         Some d \<Rightarrow> getNumericAt h table (fst d + 1) (snd d + 2)
                       | None \<Rightarrow> None)));
          scenarios' = map (toScenario h) (filter (isScenarioRow h) (table_rows table));
          registrationFromAcquisitionTax =
            (case acquisitionTaxLabel of
               Some a \<Rightarrow> getNumericBelow h table a 4
             | None \<Rightarrow> None);
          registrationFromScenario =
            (case scenarios' of s # _ \<Rightarrow> sc_fixedCost s | [] \<Rightarrow> None);
          registrationFallback = getRegistrationHeuristic h table registrationLabel
      in \<lparr> warningText =
             (case nthOpt (table_cols table) 1 of Some (Some label) \<Rightarrow> label | _ \<Rightarrow> []),
           building =
             \<lparr> supplyAreaPyeong = cellToString h (getCell table 0 1),
               exclusiveAreaPyeong = cellToString h (getCell table 0 2),
               exclusiveRatio = toNumber (valueOf (getCell table 0 3)),
               landPrice = toNumber (valueOf (getCell table 0 4)),
               buildingPrice = toNumber (valueOf (getCell table 0 5)),
               pricePerPyeong = toNumber (valueOf (getCell table 0 6)),
               supplyAmount = toNumber (valueOf (getCell table 0 7)),
               vat = toNumber (valueOf (getCell table 0 8)),
               totalAcquisition = toNumber (valueOf (getCell table 0 9)) \<rparr>,
           facility =
             \<lparr> hvac = cellToString h (getCell table 5 1),
               interior = cellToString h (getCell table 5 2) \<rparr>,
           lease =
             \<lparr> lease_deposit = leaseDeposit,
               lease_monthlyRent = monthlyRent',
               lease_monthlyRentPerPyeong = monthlyRentPerPyeong \<rparr>,
           otherCosts =
             \<lparr> registration =
                 orElse registrationFromAcquisitionTax
                   (orElse registrationFromScenario registrationFallback),
               brokerage = toNumber (VString (cellToString h (getCell table 11 2))),
               propertyBuildingTax = toNumber (VString (cellToString h (getCell table 12 1))),
               propertyLandTax = toNumber (VString (cellToString h (getCell table 12 2))) \<rparr>,
           loanInterestLabel = cellToString h (getCell table 14 2),
           scenarios = scenarios' \<rparr>)"

subsection \<open>Notions used to state the properties\<close>

text \<open>The first value present in a list of optional values.\<close>

fun firstSome :: "'a option list \<Rightarrow> 'a option" where
  "firstSome [] = None"
| "firstSome (Some x # xs) = Some x"
| "firstSome (None # xs) = firstSome xs"

section \<open>A host and sample data for the examples\<close>

text \<open>
  \<open>sampleHost\<close> lower-cases the ASCII letters only and prints whole numbers in decimal.
  It agrees with JavaScript on the ASCII and Hangul strings and on the whole numbers that
  the examples below use.
\<close>

definition asciiLower :: "jstring \<Rightarrow> jstring" where
  "asciiLower s = map (\<lambda>c. if 65 \<le> c \<and> c \<le> 90 then c + 32 else c) s"

definition wholeNumberString :: "jsnum \<Rightarrow> jstring" where
  "wholeNumberString n =
     (case n of
        Finite q \<Rightarrow>
          (if q < 0 then 45 # natToString (nat \<lfloor>- q\<rfloor>) else natToString (nat \<lfloor>q\<rfloor>))
      | NaN \<Rightarrow> ascii ''NaN''
      | PosInfinity \<Rightarrow> ascii ''Infinity''
      | NegInfinity \<Rightarrow> ascii ''-Infinity'')"

definition sampleHost :: host where
  "sampleHost = \<lparr> toLowerCase = asciiLower, numberToString = wholeNumberString \<rparr>"

text \<open>A unit with every text field empty and every number \<^verbatim>\<open>null\<close>.\<close>

definition blankUnit :: PortfolioUnit where
  "blankUnit =
     \<lparr> unit_id = [], site = [], ownership = [], tenantStatus = [], completionDate = [],
       contractRenewalRaw = [], loanRenewalRaw = [], unit_note = [], businessNumber = [],
       supplyPrice = None, loanAmount = None, interestRate = None, monthlyInterest = None,
       monthlyRent = None, buildingTax = None, landTax = None,
       trafficInducementCharge = None \<rparr>"

text \<open>
  A sheet of five data rows and a total row. The site header is U+D604 U+C7A5; the total
  row's site cell is the total marker with spaces around and inside.
\<close>

definition sampleRow :: "string \<Rightarrow> SheetRow" where
  "sampleRow name =
     [([54788, 51109], VString (ascii name)), (ascii ''loan'', VNumber (Finite 1000))]"

definition totalRow :: SheetRow where
  "totalRow =
     [([54788, 51109], VString [32, 54633, 32, 44228, 32]),
      (ascii ''loan'', VNumber (Finite 5000))]"

definition sampleRows :: "SheetRow list" where
  "sampleRows =
     map sampleRow [''A-101'', ''A-102'', ''B-201'', ''B-202'', ''C-301''] @ [totalRow]"

text \<open>A sheet whose only column is the ownership column U+BA85 U+C758.\<close>

definition ownerOnlyRows :: "SheetRow list" where
  "ownerOnlyRows = [[([47749, 51032], VString (ascii ''Kim''))]]"

text \<open>
  A moment on 1 January 2026 (day 20454 of the epoch, one hour after local midnight), and
  three units whose renewal dates lie 120, 121, -1, 10 and 10 days from it.
\<close>

definition sampleNow :: int where
  "sampleNow = 20454 * msPerDay + 3600000"

definition renewalUnits :: "PortfolioUnit list" where
  "renewalUnits =
     [blankUnit\<lparr>unit_id := ascii ''unit-0'', contractRenewalRaw := ascii ''2026-05-01'',
                 loanRenewalRaw := ascii ''2026-05-02''\<rparr>,
      blankUnit\<lparr>unit_id := ascii ''unit-1'', contractRenewalRaw := ascii ''2025-12-31'',
                 loanRenewalRaw := ascii ''2026. 1. 11''\<rparr>,
      blankUnit\<lparr>unit_id := ascii ''unit-2'', contractRenewalRaw := ascii ''26/01/11'',
                 loanRenewalRaw := []\<rparr>]"

text \<open>Cells: a text, a number, and a number with a formatted display string.\<close>

definition textCell :: "jstring \<Rightarrow> GvizCell option" where
  "textCell s = Some \<lparr> cell_v = VString s, cell_f = None \<rparr>"

definition numCell :: "rat \<Rightarrow> GvizCell option" where
  "numCell q = Some \<lparr> cell_v = VNumber (Finite q), cell_f = None \<rparr>"

definition fmtCell :: "rat \<Rightarrow> jstring \<Rightarrow> GvizCell option" where
  "fmtCell q s = Some \<lparr> cell_v = VNumber (Finite q), cell_f = Some s \<rparr>"

text \<open>
  A detail sheet with three scenario rows, at rows 1, 3 and 4, among a header row and a
  short row; the second cell of row 3 is the number 60 displayed as \<^verbatim>\<open>60%\<close>.
\<close>

definition scenarioTable :: GvizTable where
  "scenarioTable =
     \<lparr> table_cols = [],
       table_rows =
         [[None, textCell (ascii ''LTV''), textCell (ascii ''loan'')],
          [None, textCell (ascii ''50%''), fmtCell 1000 (ascii ''1,000''), numCell 500,
           numCell 50, numCell 7, numCell 557, numCell 10, numCell 4, numCell 6, numCell 1,
           numCell 72, numCell 12],
          [textCell (ascii ''note'')],
          [None, fmtCell 60 (ascii ''60%''), textCell (ascii ''1,200''), numCell 300],
          [None, textCell (ascii ''70 %''), numCell 1400, numCell 100, None, numCell 8]] \<rparr>"

text \<open>
  Three sheets for the registration cost. In the first only the registration label
  (U+B4F1 U+AE30 U+BE44 U+C6A9) is present, with the numbers 11, 22, 33, 44 from its column
  on in the row below. The second has the acquisition-tax label (U+CDE8 U+B4F1 U+B85D
  U+C138) with 4600 two rows below it, and a scenario row with fixed cost 9. The third has
  the scenario row and the registration label, and no acquisition-tax label.
\<close>

definition heuristicTable :: GvizTable where
  "heuristicTable =
     \<lparr> table_cols = [],
       table_rows =
         [[None, textCell [46321, 44592, 48708, 50857]],
          [numCell 1, numCell 11, textCell (ascii ''x''), numCell 22, numCell 33,
           numCell 44]] \<rparr>"

definition acquisitionTable :: GvizTable where
  "acquisitionTable =
     \<lparr> table_cols = [],
       table_rows =
         [[textCell [52712, 46321, 47197, 49464]],
          [None],
          [numCell 4600],
          [None, textCell (ascii ''50%''), numCell 1, numCell 2, numCell 3, numCell 9]] \<rparr>"

definition scenarioCostTable :: GvizTable where
  "scenarioCostTable =
     \<lparr> table_cols = [],
       table_rows =
         [[None, textCell (ascii ''50%''), numCell 1, numCell 2, numCell 3, numCell 9],
          [textCell [46321, 44592, 48708, 50857]],
          [numCell 11, numCell 22, numCell 33]] \<rparr>"

text \<open>A one-cell sheet: the number 0.05 displayed as \<^verbatim>\<open>5%\<close>.\<close>

definition percentTable :: GvizTable where
  "percentTable =
     \<lparr> table_cols = [], table_rows = [[fmtCell (1 / 20) (ascii ''5%'')]] \<rparr>"

section \<open>Numeric coercion: properties\<close>

lemma toDouble_small: "\<bar>q\<bar> \<le> 2 ^ 64 \<Longrightarrow> toDouble q = Finite q"
proof -
  assume a: "\<bar>q\<bar> \<le> 2 ^ 64"
  have "(2::rat) ^ 970 \<le> 2 ^ 1023"
    by (rule power_increasing) simp_all
  moreover have "(2::rat) ^ 1024 = 2 * 2 ^ 1023"
    by (simp only: power_Suc [symmetric]) simp
  moreover have "(2::rat) ^ 64 < 2 ^ 1023"
    by (rule power_strict_increasing) simp_all
  ultimately have "\<bar>q\<bar> < 2 ^ 1024 - 2 ^ 970"
    using a by linarith
  then show ?thesis
    unfolding toDouble_def by (auto simp: abs_if split: if_splits)
qed

lemmas parse_simps = ascii_def isNumericChar_def isDigit_def stringToNumber_def
  unsignedDecimal_def digitsValue_def toDouble_small finiteOrNull_def

lemma parse_eq_toNumber: "parseNumericValue v = toNumber v"
  by (simp add: parseNumericValue_def toNumber_def)

lemma toNumber_strip: "toNumber (VString s) = toNumber (VString (filter isNumericChar s))"
  by (simp add: toNumber_def)

text \<open>
  Claim C8. The two coercion functions agree on every input. A finite number is kept and
  a non-finite one becomes \<^verbatim>\<open>null\<close>. For a string, every character other than a digit,
  \<^verbatim>\<open>.\<close> and \<^verbatim>\<open>-\<close> is removed; the result is \<^verbatim>\<open>null\<close> when nothing is left or when what is
  left is not the literal of a finite number, and the number otherwise, so the result
  depends on the stripped string only. The string \<^verbatim>\<open>1,234,500\<close> followed by the won sign
  gives 1234500, \<^verbatim>\<open>12.5%\<close> gives 12.5, and the empty string and \<^verbatim>\<open>-\<close> give \<^verbatim>\<open>null\<close>.
\<close>

theorem C8_numeric_coercion:
  "parseNumericValue value = toNumber value
   \<and> toNumber (VNumber (Finite q)) = Some q
   \<and> toNumber (VNumber NaN) = None
   \<and> toNumber (VNumber PosInfinity) = None
   \<and> toNumber (VNumber NegInfinity) = None
   \<and> toNumber (VString s) =
       (let stripped = filter (\<lambda>c. isDigit c \<or> c = 46 \<or> c = 45) s in
        if stripped = [] then None
        else (case stringToNumber stripped of Finite r \<Rightarrow> Some r | _ \<Rightarrow> None))
   \<and> toNumber (VString s) = toNumber (VString (filter isNumericChar s))
   \<and> toNumber (VString (ascii ''1,234,500'' @ [50896])) = Some 1234500
   \<and> toNumber (VString (ascii ''12.5%'')) = Some (25 / 2)
   \<and> toNumber (VString []) = None
   \<and> toNumber (VString (ascii ''-'')) = None"
proof -
  have 1: "toNumber (VString s) =
       (let stripped = filter (\<lambda>c. isDigit c \<or> c = 46 \<or> c = 45) s in
        if stripped = [] then None
        else (case stringToNumber stripped of Finite r \<Rightarrow> Some r | _ \<Rightarrow> None))"
    unfolding toNumber_def isNumericChar_def finiteOrNull_def by (simp add: Let_def)
  have 2: "toNumber (VString (ascii ''1,234,500'' @ [50896])) = Some 1234500"
    by (simp add: toNumber_def parse_simps)
  have 3: "toNumber (VString (ascii ''12.5%'')) = Some (25 / 2)"
    by (simp add: toNumber_def parse_simps)
  have 4: "toNumber (VString (ascii ''-'')) = None"
    by (simp add: toNumber_def parse_simps)
  have 5: "toNumber (VString []) = None"
    by (simp add: toNumber_def)
  have 6: "toNumber (VNumber (Finite q)) = Some q" "toNumber (VNumber NaN) = None"
    "toNumber (VNumber PosInfinity) = None" "toNumber (VNumber NegInfinity) = None"
    by (simp_all add: toNumber_def finiteOrNull_def)
  show ?thesis
    using 1 2 3 4 5 6 parse_eq_toNumber [of "value"] toNumber_strip [of s] by simp
qed

theorem C8_numeric_coercion_witness:
  "parseNumericValue (VString (ascii ''3 500 won'')) = Some 3500
   \<and> parseNumericValue (VString (ascii ''1.2.3'')) = None"
proof -
  have a: "parseNumericValue (VString (ascii ''3 500 won''))
             = toNumber (VString (ascii ''3 500 won''))"
    using C8_numeric_coercion [of "VString (ascii ''3 500 won'')" 0 "[]"] by (rule conjunct1)
  have b: "parseNumericValue (VString (ascii ''1.2.3'')) = toNumber (VString (ascii ''1.2.3''))"
    using C8_numeric_coercion [of "VString (ascii ''1.2.3'')" 0 "[]"] by (rule conjunct1)
  show ?thesis
    unfolding a b by (simp add: toNumber_def parse_simps)
qed

section \<open>Metrics: properties\<close>

lemma foldl_plus_sum_list:
  "foldl (\<lambda>acc x. acc + f x) a xs = (a::rat) + sum_list (map f xs)"
  by (induction xs arbitrary: a) (simp_all add: add.assoc)

lemma base_sum_nonneg:
  "0 \<le> sum_list (map (\<lambda>u. orZero (loanAmount u)) (filter inWeightedRateBase units))"
  by (rule sum_list_nonneg) (auto simp: inWeightedRateBase_def)

lemma avgInterestRate_eq:
  "avgInterestRate (summarizePortfolio h units) =
     (let base = filter inWeightedRateBase units;
          denom = sum_list (map (\<lambda>u. orZero (loanAmount u)) base)
      in if denom = 0 then None
         else Some (sum_list (map (\<lambda>u. orZero (loanAmount u) * orZero (interestRate u)) base) / denom))"
proof (cases "units = []")
  case True
  then show ?thesis by (simp add: summarizePortfolio_def)
next
  case False
  have "0 < sum_list (map (\<lambda>u. orZero (loanAmount u)) (filter inWeightedRateBase units))
        \<longleftrightarrow> sum_list (map (\<lambda>u. orZero (loanAmount u)) (filter inWeightedRateBase units)) \<noteq> 0"
    using base_sum_nonneg [of units] by linarith
  with False show ?thesis
    by (simp add: summarizePortfolio_def Let_def foldl_plus_sum_list)
qed

text \<open>
  Claim C7. The weighted average interest rate of the summary is taken over exactly the
  units that have an interest rate and a loan amount, the loan amount being positive: it
  is the sum of loan amount times rate divided by the sum of the loan amounts, and it is
  \<^verbatim>\<open>null\<close> when that denominator is 0, in particular when every loan amount is 0 or
  \<^verbatim>\<open>null\<close>. For loan amounts 1000 and 2000 with rates 0.03 and 0.05 it is 130/3000.
\<close>

theorem C7_weighted_average:
  "avgInterestRate (summarizePortfolio h units) =
     (let base = filter (\<lambda>u. \<exists>r a. interestRate u = Some r \<and> loanAmount u = Some a \<and> a > 0) units;
          denom = (\<Sum>u\<leftarrow>base. the (loanAmount u))
      in if denom = 0 then None
         else Some ((\<Sum>u\<leftarrow>base. the (loanAmount u) * the (interestRate u)) / denom))
   \<and> ((\<forall>u \<in> set units. loanAmount u = None \<or> loanAmount u = Some 0)
        \<longrightarrow> avgInterestRate (summarizePortfolio h units) = None)
   \<and> (loanAmount u1 = Some 1000 \<and> interestRate u1 = Some (3 / 100)
        \<and> loanAmount u2 = Some 2000 \<and> interestRate u2 = Some (5 / 100)
        \<longrightarrow> avgInterestRate (summarizePortfolio h [u1, u2]) = Some (130 / 3000))"
proof -
  have pred: "(\<lambda>u. \<exists>r a. interestRate u = Some r \<and> loanAmount u = Some a \<and> a > 0) = inWeightedRateBase"
    by (auto simp: inWeightedRateBase_def orZero_def fun_eq_iff split: option.splits)
  have the1: "(\<Sum>u\<leftarrow>filter inWeightedRateBase units. the (loanAmount u))
                = (\<Sum>u\<leftarrow>filter inWeightedRateBase units. orZero (loanAmount u))"
    by (rule arg_cong [where f = sum_list], rule map_cong)
       (auto simp: inWeightedRateBase_def orZero_def)
  have the2: "(\<Sum>u\<leftarrow>filter inWeightedRateBase units. the (loanAmount u) * the (interestRate u))
                = (\<Sum>u\<leftarrow>filter inWeightedRateBase units. orZero (loanAmount u) * orZero (interestRate u))"
    by (rule arg_cong [where f = sum_list], rule map_cong)
       (auto simp: inWeightedRateBase_def orZero_def)
  have A: "avgInterestRate (summarizePortfolio h units) =
     (let base = filter (\<lambda>u. \<exists>r a. interestRate u = Some r \<and> loanAmount u = Some a \<and> a > 0) units;
          denom = (\<Sum>u\<leftarrow>base. the (loanAmount u))
      in if denom = 0 then None
         else Some ((\<Sum>u\<leftarrow>base. the (loanAmount u) * the (interestRate u)) / denom))"
    unfolding pred Let_def the1 the2 using avgInterestRate_eq [of h units] by (simp add: Let_def)
  have B: "avgInterestRate (summarizePortfolio h units) = None"
    if "\<forall>u \<in> set units. loanAmount u = None \<or> loanAmount u = Some 0"
  proof -
    from that have "filter inWeightedRateBase units = []"
      by (auto simp: filter_empty_conv inWeightedRateBase_def orZero_def)
    then show ?thesis by (simp add: avgInterestRate_eq)
  qed
  have C: "avgInterestRate (summarizePortfolio h [u1, u2]) = Some (130 / 3000)"
    if "loanAmount u1 = Some 1000 \<and> interestRate u1 = Some (3 / 100)
        \<and> loanAmount u2 = Some 2000 \<and> interestRate u2 = Some (5 / 100)"
    using that by (simp add: avgInterestRate_eq inWeightedRateBase_def orZero_def)
  from A B C show ?thesis by blast
qed

theorem C7_weighted_average_witness:
  "avgInterestRate (summarizePortfolio sampleHost
      [blankUnit\<lparr>loanAmount := Some 1000, interestRate := Some (3 / 100)\<rparr>,
       blankUnit\<lparr>loanAmount := Some 2000, interestRate := Some (5 / 100)\<rparr>]) = Some (13 / 300)
   \<and> avgInterestRate (summarizePortfolio sampleHost
      [blankUnit\<lparr>loanAmount := Some 0, interestRate := Some (3 / 100)\<rparr>, blankUnit]) = None"
proof -
  let ?u1 = "blankUnit\<lparr>loanAmount := Some 1000, interestRate := Some (3 / 100)\<rparr>"
  let ?u2 = "blankUnit\<lparr>loanAmount := Some 2000, interestRate := Some (5 / 100)\<rparr>"
  let ?z = "[blankUnit\<lparr>loanAmount := Some 0, interestRate := Some (3 / 100)\<rparr>, blankUnit]"
  have a: "avgInterestRate (summarizePortfolio sampleHost [?u1, ?u2]) = Some (130 / 3000)"
    using C7_weighted_average [of sampleHost "[]" ?u1 ?u2] by simp
  have b: "avgInterestRate (summarizePortfolio sampleHost ?z) = None"
    using C7_weighted_average [of sampleHost ?z blankUnit blankUnit]
    by (simp add: blankUnit_def)
  from a b show ?thesis by simp
qed

text \<open>
  Claim C4, as stated, fails: the unit equity of the table is not always supply price
  minus loan amount. A unit with no supply price and a loan of 100 has unit equity 0,
  while the formula, and the total equity of the portfolio holding just that unit, give
  -100.
\<close>

theorem C4_unit_equity_counterexample:
  "unitEquity (blankUnit\<lparr>loanAmount := Some 100\<rparr>) = 0
   \<and> orZero (supplyPrice (blankUnit\<lparr>loanAmount := Some 100\<rparr>))
       - orZero (loanAmount (blankUnit\<lparr>loanAmount := Some 100\<rparr>)) = - 100
   \<and> totalEquity (summarizePortfolio sampleHost [blankUnit\<lparr>loanAmount := Some 100\<rparr>]) = - 100"
  by (simp add: unitEquity_def blankUnit_def orZero_def summarizePortfolio_def)

text \<open>
  Claim C4, amended. For every unit, the unit monthly net is monthly rent minus monthly
  interest with \<^verbatim>\<open>null\<close> as 0, which is the monthly net cash flow of the portfolio
  holding just that unit. The unit equity is supply price minus loan amount (\<^verbatim>\<open>null\<close>
  as 0, possibly negative) when the supply price is positive, and 0 otherwise. The unit
  annual ROI is monthly net times 12 divided by the unit equity, and \<^verbatim>\<open>null\<close> when the
  unit equity is not positive. When the supply price is positive, unit equity and unit
  ROI are the total equity and the annual return on equity of the one-unit portfolio.
\<close>

theorem C4_unit_figures:
  "unitMonthlyNet u = orZero (monthlyRent u) - orZero (monthlyInterest u)
   \<and> unitMonthlyNet u = monthlyNetCashflow (summarizePortfolio h [u])
   \<and> unitEquity u =
       (if orZero (supplyPrice u) > 0 then orZero (supplyPrice u) - orZero (loanAmount u) else 0)
   \<and> unitRoe u =
       (if unitEquity u > 0 then Some (unitMonthlyNet u * 12 / unitEquity u) else None)
   \<and> (orZero (supplyPrice u) > 0 \<longrightarrow>
        unitEquity u = totalEquity (summarizePortfolio h [u])
        \<and> unitRoe u = annualReturnOnEquity (summarizePortfolio h [u]))"
  by (simp add: unitMonthlyNet_def unitEquity_def unitRoe_def summarizePortfolio_def Let_def)

theorem C4_unit_figures_witness:
  "unitEquity (blankUnit\<lparr>supplyPrice := Some 500, loanAmount := Some 300,
                 monthlyRent := Some 3, monthlyInterest := Some 1\<rparr>) = 200
   \<and> annualReturnOnEquity (summarizePortfolio sampleHost
         [blankUnit\<lparr>supplyPrice := Some 500, loanAmount := Some 300,
                 monthlyRent := Some 3, monthlyInterest := Some 1\<rparr>]) = Some (3 / 25)"
proof -
  let ?u = "blankUnit\<lparr>supplyPrice := Some 500, loanAmount := Some 300,
                 monthlyRent := Some 3, monthlyInterest := Some 1\<rparr>"
  have pos: "orZero (supplyPrice ?u) > 0"
    by (simp add: orZero_def)
  have e: "unitEquity ?u = 200"
    by (simp add: unitEquity_def orZero_def blankUnit_def)
  have r: "unitRoe ?u = Some (3 / 25)"
    by (simp add: unitRoe_def unitEquity_def unitMonthlyNet_def orZero_def blankUnit_def)
  from C4_unit_figures [of ?u sampleHost] pos
  have "unitRoe ?u = annualReturnOnEquity (summarizePortfolio sampleHost [?u])"
    by blast
  with e r show ?thesis by simp
qed

section \<open>Row normalizer: properties\<close>

lemma findIndex_take:
  "(if findIndex P xs \<ge> 0 then take (nat (findIndex P xs)) xs else xs)
     = takeWhile (\<lambda>x. \<not> P x) xs"
proof (induction xs)
  case Nil
  show ?case by simp
next
  case (Cons x xs)
  show ?case
  proof (cases "P x")
    case True
    then show ?thesis by simp
  next
    case False
    show ?thesis
    proof (cases "findIndex P xs \<ge> 0")
      case True
      with False Cons show ?thesis by (simp add: Let_def nat_add_distrib)
    next
      case n: False
      with False Cons show ?thesis by (simp add: Let_def)
    qed
  qed
qed

lemma textOr_hasSite:
  "hasSite h c row \<Longrightarrow> textOr h row c fallback = jsString h (rowGet row c)"
  by (auto simp: hasSite_def textOr_def nullish_def jsString_def trim_def)

lemma map_enumerate_site:
  "\<forall>row \<in> set xs. hasSite h (siteColumn cs) row \<Longrightarrow>
   map site (map (\<lambda>(index, row). toUnit h cs index row) (enumerate n xs))
     = map (\<lambda>row. jsString h (rowGet row (siteColumn cs))) xs"
  by (induction xs arbitrary: n) (simp_all add: toUnit_def textOr_hasSite)

lemma map_site_text:
  "map (\<lambda>row. jsString h (rowGet row c)) (filter (hasSite h c) xs)
     = map (\<lambda>row. textOr h row c []) (filter (hasSite h c) xs)"
  by (rule map_cong) (simp_all add: textOr_hasSite)


lemma toPortfolioUnits_unfold:
  "toPortfolioUnits h (first # rest)
          = map (\<lambda>(index, row). toUnit h (resolveColumns h (objectKeys first)) index row)
              (enumerate 0 (filter (hasSite h (siteColumn (resolveColumns h (objectKeys first)))) (takeWhile (\<lambda>row. \<not> isSumRow h (siteColumn (resolveColumns h (objectKeys first))) row) (first # rest))))"
  by (simp only: toPortfolioUnits_def Let_def list.case findIndex_take)


lemma toPortfolioUnits_sites:
  "map site (toPortfolioUnits h (first # rest)) =
     (let c = siteColumn (resolveColumns h (objectKeys first)) in
      map (\<lambda>row. textOr h row c [])
        (filter (hasSite h c) (takeWhile (\<lambda>row. \<not> isSumRow h c row) (first # rest))))"
proof -
  let ?cs = "resolveColumns h (objectKeys first)"
  let ?src = "filter (hasSite h (siteColumn ?cs))
                (takeWhile (\<lambda>row. \<not> isSumRow h (siteColumn ?cs) row) (first # rest))"
  have "map site (toPortfolioUnits h (first # rest))
          = map site (map (\<lambda>(index, row). toUnit h ?cs index row) (enumerate 0 ?src))"
    by (simp only: toPortfolioUnits_unfold)
  also have "\<dots> = map (\<lambda>row. jsString h (rowGet row (siteColumn ?cs))) ?src"
    by (rule map_enumerate_site) simp
  also have "\<dots> = map (\<lambda>row. textOr h row (siteColumn ?cs) []) ?src"
    by (rule map_site_text)
  finally show ?thesis
    by (simp only: Let_def)
qed

lemma toPortfolioUnits_length:
  "length (toPortfolioUnits h (first # rest)) =
     (let c = siteColumn (resolveColumns h (objectKeys first)) in
      length (filter (hasSite h c) (takeWhile (\<lambda>row. \<not> isSumRow h c row) (first # rest))))"
  by (simp only: toPortfolioUnits_unfold Let_def length_map length_enumerate)


lemma length_takeWhile_all:
  "\<forall>x \<in> set xs. P x \<Longrightarrow> \<not> P y \<Longrightarrow> takeWhile P (xs @ y # ys) = xs"
  by (induction xs) simp_all

lemmas sheet_eval = sampleRows_def sampleRow_def totalRow_def ownerOnlyRows_def objectKeys_def
  sampleHost_def asciiLower_def ascii_def textOr_def rowGet_def nullish_def jsString_def
  trim_def removeWhitespace_def isWhiteSpace_def

text \<open>
  Claim C6. With the site column resolved from the first row, the site of a row being
  \<^verbatim>\<open>String(row[siteColumn] ?? '')\<close>: the units come, in order, from the rows before the
  first row whose site, whitespace removed, contains the total marker, and among those
  from the rows whose trimmed site is not empty; each unit carries its row's site. When no
  row is a total row, every row with a non-blank site is kept. For five data rows
  (non-blank, not total) followed by one total row the result has exactly five units.
\<close>

theorem C6_total_and_blank_rows:
  "toPortfolioUnits h [] = []
   \<and> (let c = findLikelyColumn h (objectKeys first) [[54788, 51109], [54840, 49892], ascii ''site''];
           rows = first # rest;
           isTotal = (\<lambda>row. includesStr (removeWhitespace (textOr h row c [])) [54633, 44228]);
           blank = (\<lambda>row. trim (textOr h row c []) = [])
       in map site (toPortfolioUnits h rows)
            = map (\<lambda>row. textOr h row c [])
                (filter (\<lambda>row. \<not> blank row) (takeWhile (\<lambda>row. \<not> isTotal row) rows))
          \<and> ((\<forall>row \<in> set rows. \<not> isTotal row) \<longrightarrow>
               length (toPortfolioUnits h rows) = length (filter (\<lambda>row. \<not> blank row) rows))
          \<and> (\<forall>dataRows total.
                rows = dataRows @ [total] \<and> length dataRows = 5
                \<and> (\<forall>row \<in> set dataRows. \<not> blank row \<and> \<not> isTotal row) \<and> isTotal total
                \<longrightarrow> length (toPortfolioUnits h rows) = 5))"
proof -
  let ?c = "findLikelyColumn h (objectKeys first) [[54788, 51109], [54840, 49892], ascii ''site'']"
  let ?rows = "first # rest"
  let ?isTotal = "\<lambda>row. includesStr (removeWhitespace (textOr h row ?c [])) [54633, 44228]"
  let ?blank = "\<lambda>row. trim (textOr h row ?c []) = []"
  have c: "siteColumn (resolveColumns h (objectKeys first)) = ?c"
    by (simp add: resolveColumns_def)
  have t: "isSumRow h ?c = ?isTotal"
    by (simp add: isSumRow_def totalMarker_def fun_eq_iff)
  have b: "hasSite h ?c = (\<lambda>row. \<not> ?blank row)"
    by (simp add: hasSite_def fun_eq_iff)
  have sites: "map site (toPortfolioUnits h ?rows)
            = map (\<lambda>row. textOr h row ?c [])
                (filter (\<lambda>row. \<not> ?blank row) (takeWhile (\<lambda>row. \<not> ?isTotal row) ?rows))"
    using toPortfolioUnits_sites [of h first rest] unfolding Let_def c t b .
  have len: "length (toPortfolioUnits h ?rows)
            = length (filter (\<lambda>row. \<not> ?blank row) (takeWhile (\<lambda>row. \<not> ?isTotal row) ?rows))"
    using toPortfolioUnits_length [of h first rest] unfolding Let_def c t b .
  have noTotal: "length (toPortfolioUnits h ?rows) = length (filter (\<lambda>row. \<not> ?blank row) ?rows)"
    if "\<forall>row \<in> set ?rows. \<not> ?isTotal row"
  proof -
    from that have "takeWhile (\<lambda>row. \<not> ?isTotal row) ?rows = ?rows"
      by (intro takeWhile_eq_all_conv [THEN iffD2]) blast
    with len show ?thesis by simp
  qed
  have five: "length (toPortfolioUnits h ?rows) = 5"
    if h1: "?rows = dataRows @ [total]" and h2: "length dataRows = 5"
      and h3: "\<forall>row \<in> set dataRows. \<not> ?blank row \<and> \<not> ?isTotal row" and h4: "?isTotal total"
    for dataRows total
  proof -
    have "takeWhile (\<lambda>row. \<not> ?isTotal row) (dataRows @ total # []) = dataRows"
      using h3 h4 by (intro length_takeWhile_all) simp_all
    moreover have "filter (\<lambda>row. \<not> ?blank row) dataRows = dataRows"
      using h3 by (simp add: filter_id_conv)
    ultimately show ?thesis
      using len h2 unfolding h1 by simp
  qed
  have nil: "toPortfolioUnits h [] = []"
    by (simp add: toPortfolioUnits_def)
  show ?thesis
    unfolding Let_def using nil sites noTotal five by blast
qed

theorem C6_total_and_blank_rows_witness:
  "length (toPortfolioUnits sampleHost sampleRows) = 5"
proof -
  let ?first = "sampleRow ''A-101''"
  let ?data = "map sampleRow [''A-101'', ''A-102'', ''B-201'', ''B-202'', ''C-301'']"
  let ?rest = "map sampleRow [''A-102'', ''B-201'', ''B-202'', ''C-301''] @ [totalRow]"
  have rows: "sampleRows = ?first # ?rest"
    by (simp add: sampleRows_def)
  have c: "findLikelyColumn sampleHost (objectKeys ?first)
             [[54788, 51109], [54840, 49892], ascii ''site''] = [54788, 51109]"
    by (simp add: sheet_eval)
  note t = C6_total_and_blank_rows [of sampleHost ?first ?rest, unfolded Let_def c]
  from t have "\<forall>dataRows total.
      ?first # ?rest = dataRows @ [total] \<and> length dataRows = 5
      \<and> (\<forall>row \<in> set dataRows. \<not> trim (textOr sampleHost row [54788, 51109] []) = []
            \<and> \<not> includesStr (removeWhitespace (textOr sampleHost row [54788, 51109] []))
                  [54633, 44228])
      \<and> includesStr (removeWhitespace (textOr sampleHost total [54788, 51109] [])) [54633, 44228]
      \<longrightarrow> length (toPortfolioUnits sampleHost (?first # ?rest)) = 5"
    by blast
  then have "?first # ?rest = ?data @ [totalRow] \<and> length ?data = 5
      \<and> (\<forall>row \<in> set ?data. \<not> trim (textOr sampleHost row [54788, 51109] []) = []
            \<and> \<not> includesStr (removeWhitespace (textOr sampleHost row [54788, 51109] []))
                  [54633, 44228])
      \<and> includesStr (removeWhitespace (textOr sampleHost totalRow [54788, 51109] [])) [54633, 44228]
      \<longrightarrow> length (toPortfolioUnits sampleHost (?first # ?rest)) = 5"
    by blast
  moreover have "?first # ?rest = ?data @ [totalRow]"
    by simp
  moreover have "length ?data = 5"
    by simp
  moreover have "\<forall>row \<in> set ?data. \<not> trim (textOr sampleHost row [54788, 51109] []) = []
            \<and> \<not> includesStr (removeWhitespace (textOr sampleHost row [54788, 51109] []))
                  [54633, 44228]"
    by (simp add: sheet_eval)
  moreover have "includesStr (removeWhitespace (textOr sampleHost totalRow [54788, 51109] []))
      [54633, 44228]"
    by (simp add: sheet_eval)
  ultimately show ?thesis
    unfolding rows by blast
qed

text \<open>
  Claim C3, as stated, fails: a sheet whose only column is the ownership column has no
  site column, and its one data row is dropped instead of being kept under a fallback
  label.
\<close>

theorem C3_fallback_label_counterexample:
  "findLikelyColumn sampleHost (objectKeys (hd ownerOnlyRows))
      [[54788, 51109], [54840, 49892], ascii ''site''] = []
   \<and> length ownerOnlyRows = 1
   \<and> toPortfolioUnits sampleHost ownerOnlyRows = []"
proof -
  have c: "findLikelyColumn sampleHost (objectKeys (hd ownerOnlyRows))
      [[54788, 51109], [54840, 49892], ascii ''site''] = []"
    by (simp add: sheet_eval)
  have "length (toPortfolioUnits sampleHost ownerOnlyRows) = 0"
    unfolding ownerOnlyRows_def toPortfolioUnits_length Let_def
    using c by (simp add: resolveColumns_def hasSite_def sheet_eval)
  with c show ?thesis
    by (simp add: ownerOnlyRows_def)
qed

text \<open>
  Claim C3, amended. When the resolver finds no site column (it returns the empty name)
  and no row has a property of the empty name, as is the case for rows built from sheet
  headers, row normalization returns no unit: the site text of every row is empty, so
  the blank-site filter removes every row and no fallback label is assigned.
\<close>

theorem C3_unresolved_site_column:
  "findLikelyColumn h (objectKeys first) [[54788, 51109], [54840, 49892], ascii ''site''] = []
   \<and> (\<forall>row \<in> set (first # rest). map_of row [] = None)
   \<longrightarrow> toPortfolioUnits h (first # rest) = []"
proof
  assume a: "findLikelyColumn h (objectKeys first) [[54788, 51109], [54840, 49892], ascii ''site''] = []
   \<and> (\<forall>row \<in> set (first # rest). map_of row [] = None)"
  have c: "siteColumn (resolveColumns h (objectKeys first)) = []"
    using a by (simp add: resolveColumns_def)
  have "\<not> hasSite h [] row" if "row \<in> set (first # rest)" for row
  proof -
    from a that have "map_of row [] = None"
      by blast
    then show ?thesis
      by (simp add: hasSite_def textOr_def rowGet_def nullish_def jsString_def trim_def)
  qed
  then have "filter (hasSite h []) (takeWhile (\<lambda>row. \<not> isSumRow h [] row) (first # rest)) = []"
    by (auto simp: filter_empty_conv dest: set_takeWhileD)
  then have "length (toPortfolioUnits h (first # rest)) = 0"
    using toPortfolioUnits_length [of h first rest] unfolding Let_def c by simp
  then show "toPortfolioUnits h (first # rest) = []"
    by simp
qed


theorem C3_unresolved_site_column_witness:
  "toPortfolioUnits sampleHost
     [[(ascii ''owner'', VString (ascii ''Kim''))], [(ascii ''owner'', VString (ascii ''Lee''))]]
   = []"
proof -
  let ?first = "[(ascii ''owner'', VString (ascii ''Kim''))]"
  let ?rest = "[[(ascii ''owner'', VString (ascii ''Lee''))]]"
  have "findLikelyColumn sampleHost (objectKeys ?first)
          [[54788, 51109], [54840, 49892], ascii ''site''] = []"
    by (simp add: sheet_eval)
  moreover have "\<forall>row \<in> set (?first # ?rest). map_of row [] = None"
    by (simp add: ascii_def)
  ultimately show ?thesis
    using C3_unresolved_site_column [of sampleHost ?first ?rest] by blast
qed

section \<open>Renewal scheduler: properties\<close>

text \<open>The year search meets the standard's definition of \<^verbatim>\<open>YearFromTime\<close>.\<close>

lemma yearDescend_spec: "DayFromYear (yearDescend d y) \<le> d"
proof (induction d y rule: yearDescend.induct)
  case (1 d y)
  show ?case
  proof (cases "d < DayFromYear y")
    case True
    with "1.IH" show ?thesis
      by (subst yearDescend.simps) simp
  next
    case False
    then show ?thesis
      by (subst yearDescend.simps) simp
  qed
qed

lemma yearClimb_spec:
  "DayFromYear y \<le> d \<Longrightarrow>
     DayFromYear (yearClimb d y) \<le> d \<and> d < DayFromYear (yearClimb d y + 1)"
proof (induction d y rule: yearClimb.induct)
  case (1 d y)
  show ?case
  proof (cases "DayFromYear (y + 1) \<le> d")
    case True
    with "1.IH" show ?thesis
      by (subst (1 2) yearClimb.simps) simp
  next
    case False
    with "1.prems" show ?thesis
      by (subst (1 2) yearClimb.simps) simp
  qed
qed

lemma YearFromTime_spec:
  "DayFromYear (YearFromTime t) \<le> Day t \<and> Day t < DayFromYear (YearFromTime t + 1)"
  unfolding YearFromTime_def Let_def by (rule yearClimb_spec) (rule yearDescend_spec)

text \<open>The getters and the constructor agree: a Date's own fields rebuild its day.\<close>

lemma MonthFromTime_range: "0 \<le> MonthFromTime t \<and> MonthFromTime t \<le> 11"
  by (simp add: MonthFromTime_def Let_def)

lemma MakeDay_fields:
  "MakeDay (YearFromTime t) (MonthFromTime t) (DateFromTime t) = Day t"
proof -
  have "MonthFromTime t div 12 = 0" "MonthFromTime t mod 12 = MonthFromTime t"
    using MonthFromTime_range [of t] by simp_all
  then show ?thesis
    by (simp add: MakeDay_def DateFromTime_def DayWithinYear_def)
qed

lemma foldl_append_concat:
  "foldl (\<lambda>acc x. acc @ f x) a xs = a @ concat (map f xs)"
  by (induction xs arbitrary: a) simp_all

lemma buildRenewalAlerts_eq:
  "buildRenewalAlerts now units =
     sort_key daysLeft (concat (map (\<lambda>unit. contractAlert now unit @ loanAlert now unit) units))"
  by (simp add: buildRenewalAlerts_def foldl_append_concat)

lemma contractAlert_set:
  "a \<in> set (contractAlert now unit) \<longleftrightarrow>
     (\<exists>d. calculateDaysLeft now (contractRenewalRaw unit) = Days d \<and> 0 \<le> d \<and> d \<le> 120
          \<and> a = \<lparr> alert_id = unit_id unit @ ascii ''-contract'', alert_site = site unit,
                   kind = ContractRenewal, rawDate = contractRenewalRaw unit, daysLeft = d \<rparr>)"
  by (cases "calculateDaysLeft now (contractRenewalRaw unit)") (auto simp: contractAlert_def)

lemma loanAlert_set:
  "a \<in> set (loanAlert now unit) \<longleftrightarrow>
     (\<exists>d. calculateDaysLeft now (loanRenewalRaw unit) = Days d \<and> 0 \<le> d \<and> d \<le> 120
          \<and> a = \<lparr> alert_id = unit_id unit @ ascii ''-loan'', alert_site = site unit,
                   kind = LoanRenewal, rawDate = loanRenewalRaw unit, daysLeft = d \<rparr>)"
  by (cases "calculateDaysLeft now (loanRenewalRaw unit)") (auto simp: loanAlert_def)

text \<open>
  Claim C5. The alert list is sorted ascending by days left, and it is a stable
  rearrangement of the alerts in encounter order (unit by unit, the contract alert before
  the loan alert): for every number of days, the alerts with that number keep their
  encounter order. An alert is in the list exactly when it is the contract alert, or the
  loan alert, of some unit whose date gives a number of days left d with 0 \<le> d \<le> 120;
  each of the two is decided by its own date, and a unit contributes one alert of a kind
  in that case and none otherwise (no date, a past date, or more than 120 days).
\<close>

theorem C5_renewal_alerts:
  "(let encountered = concat (map (\<lambda>unit. contractAlert now unit @ loanAlert now unit) units);
        alerts = buildRenewalAlerts now units
    in sorted (map daysLeft alerts)
       \<and> length alerts = length encountered
       \<and> (\<forall>k. filter (\<lambda>a. daysLeft a = k) alerts = filter (\<lambda>a. daysLeft a = k) encountered))
   \<and> (a \<in> set (buildRenewalAlerts now units) \<longleftrightarrow>
        (\<exists>unit \<in> set units.
           (\<exists>d. calculateDaysLeft now (contractRenewalRaw unit) = Days d \<and> 0 \<le> d \<and> d \<le> 120
                \<and> a = \<lparr> alert_id = unit_id unit @ ascii ''-contract'', alert_site = site unit,
                         kind = ContractRenewal, rawDate = contractRenewalRaw unit,
                         daysLeft = d \<rparr>)
           \<or> (\<exists>d. calculateDaysLeft now (loanRenewalRaw unit) = Days d \<and> 0 \<le> d \<and> d \<le> 120
                \<and> a = \<lparr> alert_id = unit_id unit @ ascii ''-loan'', alert_site = site unit,
                         kind = LoanRenewal, rawDate = loanRenewalRaw unit, daysLeft = d \<rparr>)))
   \<and> length (contractAlert now unit) =
       (case calculateDaysLeft now (contractRenewalRaw unit) of
          Days d \<Rightarrow> (if 0 \<le> d \<and> d \<le> 120 then 1 else 0) | _ \<Rightarrow> 0)
   \<and> length (loanAlert now unit) =
       (case calculateDaysLeft now (loanRenewalRaw unit) of
          Days d \<Rightarrow> (if 0 \<le> d \<and> d \<le> 120 then 1 else 0) | _ \<Rightarrow> 0)"
proof -
  let ?enc = "concat (map (\<lambda>unit. contractAlert now unit @ loanAlert now unit) units)"
  have s: "sorted (map daysLeft (buildRenewalAlerts now units))"
    by (simp add: buildRenewalAlerts_eq)
  have l: "length (buildRenewalAlerts now units) = length ?enc"
    unfolding buildRenewalAlerts_eq by (rule length_sort)
  have st: "filter (\<lambda>a. daysLeft a = k) (buildRenewalAlerts now units)
             = filter (\<lambda>a. daysLeft a = k) ?enc" for k
    unfolding buildRenewalAlerts_eq by (rule sort_key_stable)
  have "set (buildRenewalAlerts now units) = set ?enc"
    unfolding buildRenewalAlerts_eq by (rule set_sort)
  then have m: "a \<in> set (buildRenewalAlerts now units) \<longleftrightarrow>
      (\<exists>unit \<in> set units. a \<in> set (contractAlert now unit) \<or> a \<in> set (loanAlert now unit))"
    by auto
  have c: "length (contractAlert now unit) =
       (case calculateDaysLeft now (contractRenewalRaw unit) of
          Days d \<Rightarrow> (if 0 \<le> d \<and> d \<le> 120 then 1 else 0) | _ \<Rightarrow> 0)"
    by (simp add: contractAlert_def split: DaysLeft.split)
  have n: "length (loanAlert now unit) =
       (case calculateDaysLeft now (loanRenewalRaw unit) of
          Days d \<Rightarrow> (if 0 \<le> d \<and> d \<le> 120 then 1 else 0) | _ \<Rightarrow> 0)"
    by (simp add: loanAlert_def split: DaysLeft.split)
  show ?thesis
    unfolding Let_def using s l st c n m [unfolded contractAlert_set loanAlert_set] by blast
qed

lemma ascii_append: "ascii a @ ascii b = ascii (a @ b)"
  by (simp add: ascii_def)

lemma sample_days:
  "calculateDaysLeft sampleNow (ascii ''2026-05-01'') = Days 120"
  "calculateDaysLeft sampleNow (ascii ''2026-05-02'') = Days 121"
  "calculateDaysLeft sampleNow (ascii ''2025-12-31'') = Days (- 1)"
  "calculateDaysLeft sampleNow (ascii ''2026. 1. 11'') = Days 10"
  "calculateDaysLeft sampleNow (ascii ''26/01/11'') = Days 10"
  "calculateDaysLeft sampleNow [] = NoDate"
  by code_simp+

theorem C5_renewal_alerts_witness:
  "map (\<lambda>a. (alert_id a, daysLeft a)) (buildRenewalAlerts sampleNow renewalUnits)
     = [(ascii ''unit-1-loan'', 10), (ascii ''unit-2-contract'', 10),
        (ascii ''unit-0-contract'', 120)]
   \<and> sorted (map daysLeft (buildRenewalAlerts sampleNow renewalUnits))"
proof -
  have v: "map (\<lambda>a. (alert_id a, daysLeft a)) (buildRenewalAlerts sampleNow renewalUnits)
     = [(ascii ''unit-1-loan'', 10), (ascii ''unit-2-contract'', 10),
        (ascii ''unit-0-contract'', 120)]"
    by (simp add: buildRenewalAlerts_def renewalUnits_def contractAlert_def loanAlert_def
        blankUnit_def sample_days ascii_append)
  have "sorted (map daysLeft (buildRenewalAlerts sampleNow renewalUnits))"
    using C5_renewal_alerts [of sampleNow renewalUnits undefined blankUnit]
    unfolding Let_def by (rule conjunct1 [THEN conjunct1])
  with v show ?thesis
    by simp
qed

text \<open>
  Claim C2 does not hold of the code. The Date constructor rolls out-of-range components
  over, and the validity test of \<^verbatim>\<open>parseKoreanDate\<close> only looks for an invalid Date, which
  such components do not produce. Month 13 of 2025 parses to the same date as January
  2026, and day 32 of January to 1 February; on 1 January 2026 the string
  \<^verbatim>\<open>2025-13-05\<close> has 4 days left and produces a renewal alert.
\<close>

theorem C2_invalid_date_wraps:
  "parseKoreanDate (ascii ''2025-13-05'') = parseKoreanDate (ascii ''2026-01-05'')
   \<and> parseKoreanDate (ascii ''2025-13-05'') = Some (20458 * msPerDay)
   \<and> parseKoreanDate (ascii ''2026-01-32'') = parseKoreanDate (ascii ''2026-02-01'')
   \<and> parseKoreanDate (ascii ''2026-01-32'') = Some (20485 * msPerDay)
   \<and> calculateDaysLeft sampleNow (ascii ''2025-13-05'') = Days 4
   \<and> map daysLeft
         (buildRenewalAlerts sampleNow [blankUnit\<lparr>contractRenewalRaw := ascii ''2025-13-05''\<rparr>])
       = [4]"
proof -
  have a: "parseKoreanDate (ascii ''2025-13-05'') = Some (20458 * msPerDay)"
    by code_simp
  have b: "parseKoreanDate (ascii ''2026-01-05'') = Some (20458 * msPerDay)"
    by code_simp
  have c: "parseKoreanDate (ascii ''2026-01-32'') = Some (20485 * msPerDay)"
    by code_simp
  have d: "parseKoreanDate (ascii ''2026-02-01'') = Some (20485 * msPerDay)"
    by code_simp
  have e: "calculateDaysLeft sampleNow (ascii ''2025-13-05'') = Days 4"
    by code_simp
  have f: "calculateDaysLeft sampleNow [] = NoDate"
    by code_simp
  have g: "map daysLeft
         (buildRenewalAlerts sampleNow [blankUnit\<lparr>contractRenewalRaw := ascii ''2025-13-05''\<rparr>])
       = [4]"
    by (simp add: buildRenewalAlerts_def contractAlert_def loanAlert_def blankUnit_def e f)
  from a b c d e g show ?thesis
    by simp
qed

section \<open>Detail extractor: properties\<close>

lemma belowLoop_firstSome:
  "belowLoop h table anchor offset n =
     firstSome (map (\<lambda>k. getNumericAt h table (fst anchor + k) (snd anchor)) [offset ..< offset + n])"
proof (induction n arbitrary: offset)
  case 0
  show ?case by simp
next
  case (Suc n)
  have "[offset ..< offset + Suc n] = offset # [offset + 1 ..< offset + 1 + n]"
    by (simp add: upt_rec)
  with Suc show ?case
    by (cases "getNumericAt h table (fst anchor + offset) (snd anchor)") simp_all
qed

lemma getNumericBelow_four:
  "getNumericBelow h table (r, c) 4 =
     firstSome (map (\<lambda>k. getNumericAt h table (r + k) c) [1, 2, 3, 4])"
proof -
  have "[1 ..< 1 + 4] = [1, 2, 3, 4::nat]"
    by (simp add: upt_rec)
  then show ?thesis
    by (simp add: getNumericBelow_def belowLoop_firstSome)
qed

lemma orElse_firstSome: "orElse a (orElse b c) = firstSome [a, b, c]"
  by (cases a; cases b; cases c) (simp_all add: orElse_def)

lemma heuristicValue_firstSome:
  "heuristicValue h = (\<lambda>cell. firstSome [toNumber (valueOf cell), toNumber (VString (cellToString h cell))])"
proof
  fix cell
  show "heuristicValue h cell =
      firstSome [toNumber (valueOf cell), toNumber (VString (cellToString h cell))]"
    by (cases "toNumber (valueOf cell)"; cases "toNumber (VString (cellToString h cell))")
       (simp_all add: heuristicValue_def)
qed

lemma scenarios_parseDetail:
  "scenarios (parseDetail h table) = map (toScenario h) (filter (isScenarioRow h) (table_rows table))"
  by (simp add: parseDetail_def Let_def)

lemma registration_parseDetail:
  "registration (otherCosts (parseDetail h table)) =
     orElse (case findCellByKeyword h table [52712, 46321, 47197, 49464] of
               Some a \<Rightarrow> getNumericBelow h table a 4 | None \<Rightarrow> None)
       (orElse (case map (toScenario h) (filter (isScenarioRow h) (table_rows table)) of
                  s # _ \<Rightarrow> sc_fixedCost s | [] \<Rightarrow> None)
          (getRegistrationHeuristic h table
             (findCellByKeyword h table [46321, 44592, 48708, 50857])))"
  by (simp add: parseDetail_def Let_def)


text \<open>
  Claim C9. The scenario list is the image, in table order, of exactly the rows whose
  cell at index 1, as a string, contains a percent sign; a table with three such rows
  gives three scenarios. The selection does not depend on where a row stands: the
  scenarios of rows put one after the other are the scenarios of the first part followed by
  those of the second. In a selected row, offset 1 gives ltv (a dash when empty), offset
  2 gives loanAmount, read from the cell's string, and offsets 3 to 12 give equity,
  deposit, fixedCost, investedTotal, monthlyRent, monthlyInterest, monthlyNet, monthlyRoi,
  annualProfit and annualRoi, in that order.
\<close>

theorem C9_scenario_rows:
  "scenarios (parseDetail h table) =
     map (toScenario h)
       (filter (\<lambda>cells. includesStr (cellToString h (cellOf cells 1)) (ascii ''%''))
          (table_rows table))
   \<and> (length (filter (\<lambda>cells. includesStr (cellToString h (cellOf cells 1)) (ascii ''%''))
                 (table_rows table)) = 3
        \<longrightarrow> length (scenarios (parseDetail h table)) = 3)
   \<and> scenarios (parseDetail h (table\<lparr>table_rows := xs @ ys\<rparr>)) =
       scenarios (parseDetail h (table\<lparr>table_rows := xs\<rparr>))
       @ scenarios (parseDetail h (table\<lparr>table_rows := ys\<rparr>))
   \<and> sc_ltv (toScenario h c) =
       (if cellToString h (cellOf c 1) = [] then ascii ''-'' else cellToString h (cellOf c 1))
   \<and> [sc_loanAmount (toScenario h c), sc_equity (toScenario h c), sc_deposit (toScenario h c),
       sc_fixedCost (toScenario h c), sc_investedTotal (toScenario h c),
       sc_monthlyRent (toScenario h c), sc_monthlyInterest (toScenario h c),
       sc_monthlyNet (toScenario h c), sc_monthlyRoi (toScenario h c),
       sc_annualProfit (toScenario h c), sc_annualRoi (toScenario h c)] =
       toNumber (VString (cellToString h (cellOf c 2)))
       # map (\<lambda>i. toNumber (valueOf (cellOf c i))) [3, 4, 5, 6, 7, 8, 9, 10, 11, 12]"
proof -
  have p: "isScenarioRow h = (\<lambda>cells. includesStr (cellToString h (cellOf cells 1)) (ascii ''%''))"
    by (simp add: isScenarioRow_def fun_eq_iff)
  have a: "scenarios (parseDetail h table) =
     map (toScenario h)
       (filter (\<lambda>cells. includesStr (cellToString h (cellOf cells 1)) (ascii ''%''))
          (table_rows table))"
    using scenarios_parseDetail [of h table] unfolding p .
  have b: "scenarios (parseDetail h (table\<lparr>table_rows := xs @ ys\<rparr>)) =
       scenarios (parseDetail h (table\<lparr>table_rows := xs\<rparr>))
       @ scenarios (parseDetail h (table\<lparr>table_rows := ys\<rparr>))"
    by (simp add: scenarios_parseDetail)
  have c: "sc_ltv (toScenario h c) =
       (if cellToString h (cellOf c 1) = [] then ascii ''-'' else cellToString h (cellOf c 1))"
    by (simp add: toScenario_def)
  have d: "[sc_loanAmount (toScenario h c), sc_equity (toScenario h c), sc_deposit (toScenario h c),
       sc_fixedCost (toScenario h c), sc_investedTotal (toScenario h c),
       sc_monthlyRent (toScenario h c), sc_monthlyInterest (toScenario h c),
       sc_monthlyNet (toScenario h c), sc_monthlyRoi (toScenario h c),
       sc_annualProfit (toScenario h c), sc_annualRoi (toScenario h c)] =
       toNumber (VString (cellToString h (cellOf c 2)))
       # map (\<lambda>i. toNumber (valueOf (cellOf c i))) [3, 4, 5, 6, 7, 8, 9, 10, 11, 12]"
    by (simp add: toScenario_def)
  show ?thesis
    using a b c d by simp
qed

lemmas cell_eval = textCell_def numCell_def fmtCell_def cellOf_def nthOpt_def valueOf_def
  cellToString_def getCell_def trim_def isWhiteSpace_def jsString_def ascii_def
  sampleHost_def wholeNumberString_def natToString.simps asciiLower_def normalize_def
  removeWhitespace_def

theorem C9_scenario_rows_witness:
  "map sc_ltv (scenarios (parseDetail sampleHost scenarioTable))
     = [ascii ''50%'', ascii ''60%'', ascii ''70 %'']
   \<and> map sc_equity (scenarios (parseDetail sampleHost scenarioTable))
     = [Some 500, Some 300, Some 100]"
proof -
  have "scenarios (parseDetail sampleHost scenarioTable) =
     map (toScenario sampleHost)
       (filter (\<lambda>cells. includesStr (cellToString sampleHost (cellOf cells 1)) (ascii ''%''))
          (table_rows scenarioTable))"
    using C9_scenario_rows [of sampleHost scenarioTable "[]" "[]" "[]"] by (rule conjunct1)
  then show ?thesis
    by (simp add: scenarioTable_def toScenario_def toNumber_def finiteOrNull_def cell_eval)
qed

text \<open>
  Claim C10. The registration cost is the first value present among three, in this
  order: the first number read in the four rows directly below the acquisition-tax label,
  in its column, when that label is found; the fixed cost (offset 5) of the first scenario
  row; and the heuristic below the registration label, which collects the numbers of the
  cells from the label's column on in the row directly below it and takes the third when
  there are at least three, the last when there are one or two, and nothing otherwise.
\<close>

theorem C10_registration_fallback:
  "registration (otherCosts (parseDetail h table)) =
     (let fromAcquisitionTax =
            (case findCellByKeyword h table [52712, 46321, 47197, 49464] of
               Some (r, c) \<Rightarrow>
                 firstSome (map (\<lambda>k. getNumericAt h table (r + k) c) [1, 2, 3, 4])
             | None \<Rightarrow> None);
          fromScenario =
            (case filter (\<lambda>cells. includesStr (cellToString h (cellOf cells 1)) (ascii ''%''))
                    (table_rows table) of
               cells # _ \<Rightarrow> toNumber (valueOf (cellOf cells 5))
             | [] \<Rightarrow> None);
          heuristic =
            (case findCellByKeyword h table [46321, 44592, 48708, 50857] of
               Some (r, c) \<Rightarrow>
                 (let below = (case nthOpt (table_rows table) (r + 1) of
                                 Some cells \<Rightarrow> cells | None \<Rightarrow> []);
                      numbers =
                        List.map_filter
                          (\<lambda>cell. firstSome [toNumber (valueOf cell),
                                              toNumber (VString (cellToString h cell))])
                          (drop c below)
                  in if 3 \<le> length numbers then Some (numbers ! 2)
                     else if numbers \<noteq> [] then Some (last numbers)
                     else None)
             | None \<Rightarrow> None)
      in firstSome [fromAcquisitionTax, fromScenario, heuristic])"
proof -
  have p: "isScenarioRow h = (\<lambda>cells. includesStr (cellToString h (cellOf cells 1)) (ascii ''%''))"
    by (simp add: isScenarioRow_def fun_eq_iff)
  have acq: "(case findCellByKeyword h table [52712, 46321, 47197, 49464] of
               Some a \<Rightarrow> getNumericBelow h table a 4 | None \<Rightarrow> None)
           = (case findCellByKeyword h table [52712, 46321, 47197, 49464] of
               Some (r, c) \<Rightarrow>
                 firstSome (map (\<lambda>k. getNumericAt h table (r + k) c) [1, 2, 3, 4])
             | None \<Rightarrow> None)"
    by (simp add: getNumericBelow_four split: option.split prod.split)
  have sc: "(case map (toScenario h) (filter (isScenarioRow h) (table_rows table)) of
                  s # _ \<Rightarrow> sc_fixedCost s | [] \<Rightarrow> None)
          = (case filter (\<lambda>cells. includesStr (cellToString h (cellOf cells 1)) (ascii ''%''))
                    (table_rows table) of
               cells # _ \<Rightarrow> toNumber (valueOf (cellOf cells 5))
             | [] \<Rightarrow> None)"
    unfolding p by (simp add: toScenario_def split: list.split)
  have pick: "(if length numbers = 0 then None
              else if length numbers \<ge> 3 then Some (numbers ! 2)
              else Some (numbers ! (length numbers - 1)))
            = (if 3 \<le> length numbers then Some (numbers ! 2)
               else if numbers \<noteq> [] then Some (last numbers)
               else None)" for numbers :: "rat list"
    by (cases "numbers = []") (simp_all add: last_conv_nth)
  have heur: "getRegistrationHeuristic h table (findCellByKeyword h table [46321, 44592, 48708, 50857])
          = (case findCellByKeyword h table [46321, 44592, 48708, 50857] of
               Some (r, c) \<Rightarrow>
                 (let below = (case nthOpt (table_rows table) (r + 1) of
                                 Some cells \<Rightarrow> cells | None \<Rightarrow> []);
                      numbers =
                        List.map_filter
                          (\<lambda>cell. firstSome [toNumber (valueOf cell),
                                              toNumber (VString (cellToString h cell))])
                          (drop c below)
                  in if 3 \<le> length numbers then Some (numbers ! 2)
                     else if numbers \<noteq> [] then Some (last numbers)
                     else None)
             | None \<Rightarrow> None)"
    unfolding getRegistrationHeuristic_def Let_def pick heuristicValue_firstSome
    by (simp split: option.split prod.split)
  show ?thesis
    unfolding registration_parseDetail orElse_firstSome acq sc heur Let_def ..
qed

lemmas table_eval = findCellByKeyword_def getNumericAt_def toNumber_def finiteOrNull_def
  List.map_filter_simps parse_simps cell_eval

theorem C10_registration_fallback_witness:
  "registration (otherCosts (parseDetail sampleHost heuristicTable)) = Some 33
   \<and> registration (otherCosts (parseDetail sampleHost acquisitionTable)) = Some 4600
   \<and> registration (otherCosts (parseDetail sampleHost scenarioCostTable)) = Some 9"
proof -
  have a: "registration (otherCosts (parseDetail sampleHost heuristicTable)) = Some 33"
    unfolding C10_registration_fallback [of sampleHost heuristicTable]
    by (simp add: heuristicTable_def table_eval)
  have b: "registration (otherCosts (parseDetail sampleHost acquisitionTable)) = Some 4600"
    unfolding C10_registration_fallback [of sampleHost acquisitionTable]
    by (simp add: acquisitionTable_def table_eval)
  have c: "registration (otherCosts (parseDetail sampleHost scenarioCostTable)) = Some 9"
    unfolding C10_registration_fallback [of sampleHost scenarioCostTable]
    by (simp add: scenarioCostTable_def table_eval)
  from a b c show ?thesis
    by simp
qed

text \<open>
  Claim C1, as stated, fails: a cell holding the number 0.05 and displayed as \<^verbatim>\<open>5%\<close> is
  read by \<^verbatim>\<open>getNumericAt\<close> as 0.05, while its formatted string parses to 5; and the
  equity field of a scenario row whose cell holds 100 and displays \<^verbatim>\<open>200\<close> is 100.
\<close>

theorem C1_formatted_preferred_counterexample:
  "getNumericAt sampleHost percentTable 0 0 = Some (1 / 20)
   \<and> toNumber (VString (ascii ''5%'')) = Some 5
   \<and> sc_equity (toScenario sampleHost [None, None, None, fmtCell 100 (ascii ''200'')]) = Some 100
   \<and> toNumber (VString (ascii ''200'')) = Some 200"
  by (simp add: percentTable_def toScenario_def table_eval)

text \<open>
  Claim C1, amended. \<^verbatim>\<open>getNumericAt\<close> returns the number parsed from the cell's raw
  value whenever the raw value parses, in particular whenever it is a finite number, and
  only otherwise the number parsed from the cell's display string, which is the trimmed
  formatted string when that is not blank. In a scenario row, loanAmount (offset 2) is
  parsed from the display string, hence from the formatted string when it is not blank,
  and the fields at offsets 3 to 12 are parsed from the raw value alone.
\<close>

theorem C1_numeric_read:
  "getNumericAt h table row col =
     (case getCell table row col of
        None \<Rightarrow> None
      | Some cl \<Rightarrow> firstSome [toNumber (cell_v cl), toNumber (VString (cellToString h (Some cl)))])
   \<and> (cell_f cl = Some fs \<and> trim fs \<noteq> [] \<longrightarrow> cellToString h (Some cl) = trim fs)
   \<and> (getCell table row col = Some cl \<and> cell_v cl = VNumber (Finite q)
        \<longrightarrow> getNumericAt h table row col = Some q)
   \<and> (getCell table row col = Some cl \<and> toNumber (cell_v cl) = None
        \<and> cell_f cl = Some fs \<and> trim fs \<noteq> []
        \<longrightarrow> getNumericAt h table row col = toNumber (VString (trim fs)))
   \<and> (cellOf c 2 = Some cl \<and> cell_f cl = Some fs \<and> trim fs \<noteq> []
        \<longrightarrow> sc_loanAmount (toScenario h c) = toNumber (VString (trim fs)))
   \<and> [sc_equity (toScenario h c), sc_deposit (toScenario h c), sc_fixedCost (toScenario h c),
       sc_investedTotal (toScenario h c), sc_monthlyRent (toScenario h c),
       sc_monthlyInterest (toScenario h c), sc_monthlyNet (toScenario h c),
       sc_monthlyRoi (toScenario h c), sc_annualProfit (toScenario h c),
       sc_annualRoi (toScenario h c)] =
       map (\<lambda>i. case cellOf c i of Some cell \<Rightarrow> toNumber (cell_v cell) | None \<Rightarrow> None)
         [3, 4, 5, 6, 7, 8, 9, 10, 11, 12]"
proof -
  have undef: "toNumber VUndefined = None" "toNumber (VString []) = None"
    by (simp_all add: toNumber_def)
  have fmt: "cellToString h (Some cl) = trim fs" if "cell_f cl = Some fs" "trim fs \<noteq> []"
    using that by (auto simp: cellToString_def Let_def trim_def)
  have a: "getNumericAt h table row col =
     (case getCell table row col of
        None \<Rightarrow> None
      | Some cl \<Rightarrow> firstSome [toNumber (cell_v cl), toNumber (VString (cellToString h (Some cl)))])"
  proof (cases "getCell table row col")
    case None
    then show ?thesis
      by (simp add: getNumericAt_def valueOf_def cellToString_def undef)
  next
    case (Some x)
    then show ?thesis
      by (cases "toNumber (cell_v x)"; cases "toNumber (VString (cellToString h (Some x)))")
         (simp_all add: getNumericAt_def valueOf_def)
  qed
  have b: "getNumericAt h table row col = Some q"
    if "getCell table row col = Some cl" "cell_v cl = VNumber (Finite q)"
    using that by (simp add: a toNumber_def finiteOrNull_def)
  have c: "getNumericAt h table row col = toNumber (VString (trim fs))"
    if "getCell table row col = Some cl" "toNumber (cell_v cl) = None"
       "cell_f cl = Some fs" "trim fs \<noteq> []"
  proof -
    from that(1,2) have "getNumericAt h table row col = toNumber (VString (cellToString h (Some cl)))"
      by (cases "toNumber (VString (cellToString h (Some cl)))") (simp_all add: a)
    with fmt [OF that(3,4)] show ?thesis
      by simp
  qed
  have d: "sc_loanAmount (toScenario h c) = toNumber (VString (trim fs))"
    if "cellOf c 2 = Some cl" "cell_f cl = Some fs" "trim fs \<noteq> []"
    using that fmt by (simp add: toScenario_def)
  have v: "toNumber (valueOf cell) = (case cell of Some cell' \<Rightarrow> toNumber (cell_v cell') | None \<Rightarrow> None)"
    for cell
    by (cases cell) (simp_all add: valueOf_def undef)
  have e: "[sc_equity (toScenario h c), sc_deposit (toScenario h c), sc_fixedCost (toScenario h c),
       sc_investedTotal (toScenario h c), sc_monthlyRent (toScenario h c),
       sc_monthlyInterest (toScenario h c), sc_monthlyNet (toScenario h c),
       sc_monthlyRoi (toScenario h c), sc_annualProfit (toScenario h c),
       sc_annualRoi (toScenario h c)] =
       map (\<lambda>i. case cellOf c i of Some cell \<Rightarrow> toNumber (cell_v cell) | None \<Rightarrow> None)
         [3, 4, 5, 6, 7, 8, 9, 10, 11, 12]"
    by (simp add: toScenario_def v)
  show ?thesis
    using a b c d e fmt by blast
qed

theorem C1_numeric_read_witness:
  "getNumericAt sampleHost percentTable 0 0 = Some (1 / 20)
   \<and> getNumericAt sampleHost
        \<lparr> table_cols = [],
          table_rows = [[Some \<lparr> cell_v = VString (ascii ''n/a''), cell_f = Some (ascii '' 7 '') \<rparr>]] \<rparr>
        0 0 = Some 7"
proof -
  let ?cl1 = "\<lparr> cell_v = VNumber (Finite (1 / 20)), cell_f = Some (ascii ''5%'') \<rparr>"
  let ?cl2 = "\<lparr> cell_v = VString (ascii ''n/a''), cell_f = Some (ascii '' 7 '') \<rparr>"
  let ?t2 = "\<lparr> table_cols = [], table_rows = [[Some ?cl2]] \<rparr>"
  have g1: "getCell percentTable 0 0 = Some ?cl1"
    by (simp add: percentTable_def fmtCell_def getCell_def cellOf_def nthOpt_def)
  note raw = C1_numeric_read [of sampleHost percentTable 0 0 ?cl1 "[]" "1 / 20" "[]",
      THEN conjunct2, THEN conjunct2, THEN conjunct1]
  have a: "getNumericAt sampleHost percentTable 0 0 = Some (1 / 20)"
    using raw g1 by simp
  have g2: "getCell ?t2 0 0 = Some ?cl2"
    by (simp add: getCell_def cellOf_def nthOpt_def)
  have n2: "toNumber (cell_v ?cl2) = None"
    by (simp add: toNumber_def parse_simps)
  have t2: "trim (ascii '' 7 '') = ascii ''7''"
    by (simp add: trim_def isWhiteSpace_def ascii_def)
  note formatted = C1_numeric_read [of sampleHost ?t2 0 0 ?cl2 "ascii '' 7 ''" 0 "[]",
      THEN conjunct2, THEN conjunct2, THEN conjunct2, THEN conjunct1]
  have ne: "trim (ascii '' 7 '') \<noteq> []"
    unfolding t2 by (simp add: ascii_def)
  have "getNumericAt sampleHost ?t2 0 0 = toNumber (VString (trim (ascii '' 7 '')))"
    using formatted g2 n2 ne by simp
  then have b: "getNumericAt sampleHost ?t2 0 0 = Some 7"
    unfolding t2 by (simp add: toNumber_def parse_simps)
  from a b show ?thesis
    by simp
qed

end
